theory Spec2Isabelle
  imports Complex_Main "HOL-Library.AList"
begin

section \<open>The diagram engine (Kure), as far as pyrel uses it\<close>

text \<open>
  pyrel is a Python layer over the C library Kure, reached through ctypes
  (\<^verbatim>\<open>src/pyrel/kure.py\<close> holds only the prototypes). The library itself is not part of
  the sources, so its primitives are modelled from section 6 of the specification.
  A pointer is a natural number, \<open>0\<close> is \<open>NULL\<close>. The engine state is a heap of relation
  objects, the last-error slot of every manager, and a log of the primitive calls made
  so far (most recent first), which makes "before any engine call" a statement about
  the state.
\<close>

type_synonym addr = nat

text \<open>
  A floating-point value, of Python (a double) or of C (a \<open>float\<close>): a real number or one
  of the three special values.
\<close>

datatype pyfloat = Fin real | PosInf | NegInf | NaN

text \<open>
  The structures \<open>KureRel\<close> and \<open>KureError\<close> that \<^verbatim>\<open>kure.py\<close> declares: a relation
  belongs to a manager and has a row count, a column count and, for its decision diagram,
  the set of its bits; an error is a message and a code.
\<close>

record KureRel =
  kr_context :: addr
  kr_rows :: int
  kr_cols :: int
  kr_bits :: "(int \<times> int) set"

record KureError =
  message :: string
  code :: int

text \<open>
  Modelled from the spec: the capability set of section 6, one constructor for every
  primitive that pyrel calls, with the handles and numbers it is called with.
\<close>

datatype kure_call =
    K_context_new
  | K_rel_new_with_size_si addr int int
  | K_rel_destroy addr
  | K_rel_get_rows_si addr
  | K_rel_get_cols_si addr
  | K_set_bit_si addr bool int int
  | K_O addr
  | K_random_simple addr pyfloat
  | K_and addr addr addr
  | K_or addr addr addr
  | K_transpose addr addr
  | K_complement addr addr
  | K_mult addr addr addr
  | K_equals addr addr
  | K_includes addr addr

text \<open>
  Modelled from the spec: the state of the engine. Live relation objects by address, the
  next address the allocator hands out, the last-error slot of each manager, and the log
  of calls.
\<close>

record Kure =
  heap :: "addr \<rightharpoonup> KureRel"
  next_addr :: addr
  error :: "addr \<Rightarrow> KureError option"
  calls :: "kure_call list"

text \<open>Modelled from the spec: the engine before any call; address \<open>0\<close> is never allocated.\<close>

definition Kure_init :: Kure where
  "Kure_init = \<lparr>heap = Map.empty, next_addr = 1, error = (\<lambda>_. None), calls = []\<rparr>"

text \<open>Modelled from the spec: every primitive enters its call into the log.\<close>

definition logged :: "kure_call \<Rightarrow> Kure \<Rightarrow> Kure" where
  "logged c k = k\<lparr>calls := c # calls k\<rparr>"

text \<open>
  Modelled from the spec: the coordinates of a relation of the given dimension, rows and
  columns counted from zero.
\<close>

definition universe :: "int \<Rightarrow> int \<Rightarrow> (int \<times> int) set" where
  "universe r c = {0..<r} \<times> {0..<c}"

text \<open>
  Modelled from the spec: the engine's failure signal. A failing primitive returns the
  failure flag and stores an error record (message, code) in the last-error slot of the
  manager that owns the handle it was given; a handle that is not live has no manager to
  write to.
\<close>

definition kure_fail :: "addr \<Rightarrow> string \<Rightarrow> int \<Rightarrow> Kure \<Rightarrow> Kure" where
  "kure_fail h msg cd k =
     (case heap k h of
        None \<Rightarrow> k
      | Some r \<Rightarrow> k\<lparr>error := (error k)(kr_context r := Some \<lparr>message = msg, code = cd\<rparr>)\<rparr>)"

text \<open>
  Modelled from the spec: manager lifecycle, "create manager". The manager is named by a
  fresh address; its last-error slot is empty.
\<close>

definition kure_context_new :: "Kure \<Rightarrow> addr \<times> Kure" where
  "kure_context_new k =
     (next_addr k, logged K_context_new (k\<lparr>next_addr := Suc (next_addr k)\<rparr>))"

text \<open>
  Modelled from the spec: relation lifecycle, "create-with-dimensions(manager, rows, cols)
  \<rightarrow> handle". The handle is fresh, the relation has the dimensions given and no bit set.
\<close>

definition kure_rel_new_with_size_si :: "Kure \<Rightarrow> addr \<Rightarrow> int \<Rightarrow> int \<Rightarrow> addr \<times> Kure" where
  "kure_rel_new_with_size_si k c r n =
     (next_addr k,
      logged (K_rel_new_with_size_si c r n)
        (k\<lparr>heap := (heap k)(next_addr k \<mapsto>
               \<lparr>kr_context = c, kr_rows = r, kr_cols = n, kr_bits = {}\<rparr>),
           next_addr := Suc (next_addr k)\<rparr>))"

text \<open>Modelled from the spec: relation lifecycle, "destroy(handle)".\<close>

definition kure_rel_destroy :: "Kure \<Rightarrow> addr \<Rightarrow> Kure" where
  "kure_rel_destroy k h = logged (K_rel_destroy h) (k\<lparr>heap := (heap k)(h := None)\<rparr>)"

text \<open>
  Modelled from the spec: relation lifecycle, "query rows(handle)". Reading through a
  handle that is not live has no value.
\<close>

definition kure_rel_get_rows_si :: "Kure \<Rightarrow> addr \<Rightarrow> int option \<times> Kure" where
  "kure_rel_get_rows_si k h = (map_option kr_rows (heap k h), logged (K_rel_get_rows_si h) k)"

text \<open>Modelled from the spec: relation lifecycle, "query cols(handle)", as for the rows.\<close>

definition kure_rel_get_cols_si :: "Kure \<Rightarrow> addr \<Rightarrow> int option \<times> Kure" where
  "kure_rel_get_cols_si k h = (map_option kr_cols (heap k h), logged (K_rel_get_cols_si h) k)"

text \<open>
  Modelled from the spec: bit ops, "set-bit(handle, value, row, col) \<rightarrow> success"; a
  coordinate out of range is rejected.
\<close>

definition kure_set_bit_si :: "Kure \<Rightarrow> addr \<Rightarrow> bool \<Rightarrow> int \<Rightarrow> int \<Rightarrow> bool \<times> Kure" where
  "kure_set_bit_si k h yesno row col =
     (let k1 = logged (K_set_bit_si h yesno row col) k in
      case heap k h of
        None \<Rightarrow> (False, k1)
      | Some r \<Rightarrow>
          if (row, col) \<in> universe (kr_rows r) (kr_cols r)
          then (True, k1\<lparr>heap := (heap k)(h \<mapsto>
                  r\<lparr>kr_bits := (if yesno then insert (row, col) (kr_bits r)
                                 else kr_bits r - {(row, col)})\<rparr>)\<rparr>)
          else (False, kure_fail h ''coordinate out of range'' 1 k1))"

text \<open>Modelled from the spec: base op "empty", in place: no bit of the relation stays set.\<close>

definition kure_O :: "Kure \<Rightarrow> addr \<Rightarrow> bool \<times> Kure" where
  "kure_O k h =
     (let k1 = logged (K_O h) k in
      case heap k h of
        None \<Rightarrow> (False, k1)
      | Some r \<Rightarrow> (True, k1\<lparr>heap := (heap k)(h \<mapsto> r\<lparr>kr_bits := {}\<rparr>)\<rparr>))"

text \<open>
  Modelled from the spec: "randomized fill(handle, probability) \<rightarrow> success". The bits the
  engine's generator selects are the argument \<open>pick\<close>.
\<close>

definition kure_random_simple :: "Kure \<Rightarrow> addr \<Rightarrow> pyfloat \<Rightarrow> (int \<times> int) set \<Rightarrow> bool \<times> Kure" where
  "kure_random_simple k h prob pick =
     (let k1 = logged (K_random_simple h prob) k in
      case heap k h of
        None \<Rightarrow> (False, k1)
      | Some r \<Rightarrow>
          (True, k1\<lparr>heap := (heap k)(h \<mapsto>
                   r\<lparr>kr_bits := pick \<inter> universe (kr_rows r) (kr_cols r)\<rparr>)\<rparr>))"

text \<open>
  Modelled from the spec: the algebraic ops, "each returning a success signal and writing
  into a caller-supplied output handle". Writing a result gives the output relation the
  dimension and the bits of the result; an output handle that is not live is a failure.
\<close>

definition kure_write :: "Kure \<Rightarrow> addr \<Rightarrow> int \<Rightarrow> int \<Rightarrow> (int \<times> int) set \<Rightarrow> bool \<times> Kure" where
  "kure_write k rop r c bits =
     (case heap k rop of
        None \<Rightarrow> (False, k)
      | Some out \<Rightarrow>
          (True, k\<lparr>heap := (heap k)(rop \<mapsto> out\<lparr>kr_rows := r, kr_cols := c, kr_bits := bits\<rparr>)\<rparr>))"

text \<open>
  Modelled from the spec: "and (intersection)", section 4.2: "operands equal in both
  dimensions"; operands whose dimensions differ are a failure.
\<close>

definition kure_and :: "Kure \<Rightarrow> addr \<Rightarrow> addr \<Rightarrow> addr \<Rightarrow> bool \<times> Kure" where
  "kure_and k rop arg1 arg2 =
     (let k1 = logged (K_and rop arg1 arg2) k in
      case (heap k arg1, heap k arg2) of
        (Some a, Some b) \<Rightarrow>
          if kr_rows a = kr_rows b \<and> kr_cols a = kr_cols b
          then kure_write k1 rop (kr_rows a) (kr_cols a) (kr_bits a \<inter> kr_bits b)
          else (False, kure_fail rop ''dimensions differ'' 2 k1)
      | _ \<Rightarrow> (False, k1))"

text \<open>Modelled from the spec: "or (union)", with the dimension rule of the intersection.\<close>

definition kure_or :: "Kure \<Rightarrow> addr \<Rightarrow> addr \<Rightarrow> addr \<Rightarrow> bool \<times> Kure" where
  "kure_or k rop arg1 arg2 =
     (let k1 = logged (K_or rop arg1 arg2) k in
      case (heap k arg1, heap k arg2) of
        (Some a, Some b) \<Rightarrow>
          if kr_rows a = kr_rows b \<and> kr_cols a = kr_cols b
          then kure_write k1 rop (kr_rows a) (kr_cols a) (kr_bits a \<union> kr_bits b)
          else (False, kure_fail rop ''dimensions differ'' 2 k1)
      | _ \<Rightarrow> (False, k1))"

text \<open>
  Modelled from the spec: "transpose", section 4.2: "swap row/column roles; result dims
  are (cols, rows) of operand".
\<close>

definition kure_transpose :: "Kure \<Rightarrow> addr \<Rightarrow> addr \<Rightarrow> bool \<times> Kure" where
  "kure_transpose k rop arg =
     (let k1 = logged (K_transpose rop arg) k in
      case heap k arg of
        Some a \<Rightarrow> kure_write k1 rop (kr_cols a) (kr_rows a) ((kr_bits a)\<inverse>)
      | None \<Rightarrow> (False, k1))"

text \<open>
  Modelled from the spec: "complement", section 4.2: "bitwise negation", dimension "same
  as operand".
\<close>

definition kure_complement :: "Kure \<Rightarrow> addr \<Rightarrow> addr \<Rightarrow> bool \<times> Kure" where
  "kure_complement k rop arg =
     (let k1 = logged (K_complement rop arg) k in
      case heap k arg of
        Some a \<Rightarrow>
          kure_write k1 rop (kr_rows a) (kr_cols a)
            (universe (kr_rows a) (kr_cols a) - kr_bits a)
      | None \<Rightarrow> (False, k1))"

text \<open>
  Modelled from the spec: "multiply (composition)", section 4.2: "result bit (i,k) set iff
  \<exists> j with operand bit (i,j) and other bit (j,k)", "operand cols must equal other rows;
  result dims = (operand rows, other cols)".
\<close>

definition kure_mult :: "Kure \<Rightarrow> addr \<Rightarrow> addr \<Rightarrow> addr \<Rightarrow> bool \<times> Kure" where
  "kure_mult k rop arg1 arg2 =
     (let k1 = logged (K_mult rop arg1 arg2) k in
      case (heap k arg1, heap k arg2) of
        (Some a, Some b) \<Rightarrow>
          if kr_cols a = kr_rows b
          then kure_write k1 rop (kr_rows a) (kr_cols b) (kr_bits a O kr_bits b)
          else (False, kure_fail rop ''dimensions do not fit'' 2 k1)
      | _ \<Rightarrow> (False, k1))"

text \<open>
  Modelled from the spec: comparison ops, "equals(handle, handle) \<rightarrow> (value, success)";
  operands of different dimension are a failure, not a silent \<open>False\<close> (section 4.2).
\<close>

definition kure_equals :: "Kure \<Rightarrow> addr \<Rightarrow> addr \<Rightarrow> (bool \<times> bool) \<times> Kure" where
  "kure_equals k R S =
     (let k1 = logged (K_equals R S) k in
      case (heap k R, heap k S) of
        (Some a, Some b) \<Rightarrow>
          if kr_rows a = kr_rows b \<and> kr_cols a = kr_cols b
          then ((kr_bits a = kr_bits b, True), k1)
          else ((False, False), kure_fail R ''dimensions differ'' 2 k1)
      | _ \<Rightarrow> ((False, False), k1))"

text \<open>
  Modelled from the spec: comparison ops, "includes(handle, handle) \<rightarrow> (value, success)",
  the inclusion of the bits of the first relation in those of the second, with the
  dimension rule of \<open>equals\<close>.
\<close>

definition kure_includes :: "Kure \<Rightarrow> addr \<Rightarrow> addr \<Rightarrow> (bool \<times> bool) \<times> Kure" where
  "kure_includes k R S =
     (let k1 = logged (K_includes R S) k in
      case (heap k R, heap k S) of
        (Some a, Some b) \<Rightarrow>
          if kr_rows a = kr_rows b \<and> kr_cols a = kr_cols b
          then ((kr_bits a \<subseteq> kr_bits b, True), k1)
          else ((False, False), kure_fail R ''dimensions differ'' 2 k1)
      | _ \<Rightarrow> ((False, False), k1))"


section \<open>Python values, exceptions and the two classes\<close>

text \<open>
  Arguments are untyped in Python, so an argument is a value of \<open>pyobj\<close>. Of the
  arithmetic of floats only the comparisons with \<open>0.0\<close> and \<open>1.0\<close> and the conversion to
  single precision occur.
\<close>

record Relation =
  r_context :: addr
  r_ref :: int
  rel :: addr
  rows :: int
  cols :: int

datatype pyobj =
    PyInt int
  | PyBool bool
  | PyFloat pyfloat
  | PyStr string
  | PyNone
  | PyTuple "pyobj list"
  | PyList "pyobj list"
  | PyRelation Relation

text \<open>
  pyrel raises one exception class, \<open>PyrelException(msg, code)\<close>; the other constructors
  are the exceptions of Python and ctypes that its code can meet, and \<open>InvalidPointer\<close>
  stands for a read through a pointer that is not live. An operation returns its result or
  its exception together with the world it leaves behind, since what was done before a
  \<open>raise\<close> stays done. The finalisers \<open>__del__\<close> run when the interpreter collects an
  object; they are not modelled, \<open>delete\<close> and \<open>clean\<close>, which they call, are.
\<close>

datatype exn =
    PyrelException string "int option"
  | TypeError
  | ValueError
  | ArgumentError
  | InvalidPointer

text \<open>The error names of the specification are particular messages of \<open>PyrelException\<close>.\<close>

definition InvalidDimension :: exn where
  "InvalidDimension = PyrelException ''Invalid dimension.'' None"

definition TypeMismatch :: exn where
  "TypeMismatch = PyrelException ''argument type must be relation'' None"

definition InvalidBitPair :: exn where
  "InvalidBitPair = PyrelException ''Invalid (row, col) bit pair.'' None"

definition InvalidArgument :: exn where
  "InvalidArgument =
     PyrelException ''Invalid argument. Prob must be a float                 between 0.0 and 1.0.'' None"

text \<open>An engine error is a \<open>PyrelException\<close> that carries the engine's error code.\<close>

fun is_EngineError :: "exn \<Rightarrow> bool" where
  "is_EngineError (PyrelException msg (Some cd)) = True"
| "is_EngineError _ = False"

record PyrelContext =
  c_context :: addr
  ref :: int
  relations :: "(int \<times> addr) list"

record world =
  contexts :: "addr \<Rightarrow> PyrelContext"
  next_context :: addr
  kure :: Kure

definition world_init :: world where
  "world_init =
     \<lparr>contexts = (\<lambda>_. \<lparr>c_context = 0, ref = 0, relations = []\<rparr>),
      next_context = 0, kure = Kure_init\<rparr>"

subsection \<open>Python and ctypes primitives\<close>

text \<open>\<open>c_int(n)\<close>: ctypes keeps the low 32 bits, read as a signed number, without any check.\<close>

definition c_int :: "int \<Rightarrow> int" where
  "c_int n = (n + 2147483648) mod 4294967296 - 2147483648"

text \<open>
  An argument converted for a parameter declared \<open>c_int\<close>: an int (or a bool, which is an
  int) is accepted, anything else is an \<open>ArgumentError\<close> before the call.
\<close>

fun c_int_arg :: "pyobj \<Rightarrow> int option" where
  "c_int_arg (PyInt n) = Some (c_int n)"
| "c_int_arg (PyBool b) = Some (if b then 1 else 0)"
| "c_int_arg _ = None"

text \<open>\<open>type(x) == int\<close>, which a bool does not satisfy.\<close>

fun type_int :: "pyobj \<Rightarrow> int option" where
  "type_int (PyInt n) = Some n"
| "type_int _ = None"

fun truthy :: "pyobj \<Rightarrow> bool" where
  "truthy (PyInt n) = (n \<noteq> 0)"
| "truthy (PyBool b) = b"
| "truthy (PyFloat f) = (f \<noteq> Fin 0)"
| "truthy (PyStr s) = (s \<noteq> [])"
| "truthy PyNone = False"
| "truthy (PyTuple xs) = (xs \<noteq> [])"
| "truthy (PyList xs) = (xs \<noteq> [])"
| "truthy (PyRelation r) = True"

text \<open>The items a \<open>for\<close> loop draws from a value; \<open>None\<close> when the value is not iterable.\<close>

fun py_iter :: "pyobj \<Rightarrow> pyobj list option" where
  "py_iter (PyTuple xs) = Some xs"
| "py_iter (PyList xs) = Some xs"
| "py_iter (PyStr s) = Some (map (\<lambda>c. PyStr [c]) s)"
| "py_iter _ = None"

text \<open>
  The assignment \<open>row, col = x\<close>: a \<open>TypeError\<close> when \<open>x\<close> is not iterable, a
  \<open>ValueError\<close> when it does not have exactly two items.
\<close>

definition unpack2 :: "pyobj \<Rightarrow> exn + pyobj \<times> pyobj" where
  "unpack2 x =
     (case py_iter x of
        None \<Rightarrow> Inl TypeError
      | Some [a, b] \<Rightarrow> Inr (a, b)
      | Some _ \<Rightarrow> Inl ValueError)"

text \<open>\<open>prob > 0.0\<close> and \<open>min(1.0, prob)\<close> on floats.\<close>

fun float_pos :: "pyfloat \<Rightarrow> bool" where
  "float_pos (Fin x) = (x > 0)"
| "float_pos PosInf = True"
| "float_pos NegInf = False"
| "float_pos NaN = False"

fun min_one :: "pyfloat \<Rightarrow> pyfloat" where
  "min_one (Fin x) = (if x < 1 then Fin x else Fin 1)"
| "min_one PosInf = Fin 1"
| "min_one NegInf = NegInf"
| "min_one NaN = Fin 1"

text \<open>
  \<open>c_float(x)\<close>: ctypes converts the double to a C \<open>float\<close>, which rounds it to single
  precision, to the nearest value and to the even one of two equally near. A single has
  24 significant bits: in the binade \<open>2^e \<le> a < 2^(e+1)\<close> its values are \<open>2^(e-23)\<close> apart.
  The exponent \<open>e\<close> is at least \<open>-126\<close>, so that below \<open>2^(-126)\<close> the values are
  \<open>2^(-149)\<close> apart and a number small enough becomes \<open>0.0\<close>; what rounds to \<open>2^128\<close> or
  more becomes an infinity.
\<close>

fun binade_up :: "nat \<Rightarrow> real \<Rightarrow> int" where
  "binade_up 0 a = 0"
| "binade_up (Suc m) a = (if a < 2 then 0 else binade_up m (a / 2) + 1)"

fun binade_down :: "nat \<Rightarrow> real \<Rightarrow> int" where
  "binade_down 0 a = 0"
| "binade_down (Suc m) a = (if 1 \<le> a then 0 else binade_down m (2 * a) - 1)"

definition binade :: "real \<Rightarrow> int" where
  "binade a = (if 1 \<le> a then binade_up 128 a else binade_down 126 a)"

definition ulp :: "real \<Rightarrow> real" where
  "ulp a = (if 23 \<le> binade a then 2 ^ nat (binade a - 23) else 1 / 2 ^ nat (23 - binade a))"

definition round_even :: "real \<Rightarrow> int" where
  "round_even y =
     (if y - of_int \<lfloor>y\<rfloor> < 1 / 2 then \<lfloor>y\<rfloor>
      else if 1 / 2 < y - of_int \<lfloor>y\<rfloor> then \<lfloor>y\<rfloor> + 1
      else if even \<lfloor>y\<rfloor> then \<lfloor>y\<rfloor> else \<lfloor>y\<rfloor> + 1)"

definition single :: "real \<Rightarrow> real" where
  "single a = of_int (round_even (a / ulp a)) * ulp a"

fun c_float :: "pyfloat \<Rightarrow> pyfloat" where
  "c_float (Fin x) =
     (if 2 ^ 128 \<le> single \<bar>x\<bar> then (if 0 < x then PosInf else NegInf)
      else Fin (sgn x * single \<bar>x\<bar>))"
| "c_float f = f"

text \<open>\<open>isinstance(prob, float)\<close>.\<close>

fun is_float :: "pyobj \<Rightarrow> pyfloat option" where
  "is_float (PyFloat f) = Some f"
| "is_float _ = None"

subsection \<open>PyrelContext and Relation: construction and bits\<close>

definition PyrelContext_init :: "world \<Rightarrow> addr \<times> world" where
  "PyrelContext_init w =
     (let (m, k1) = kure_context_new (kure w) in
      (next_context w,
       w\<lparr>contexts := (contexts w)(next_context w := \<lparr>c_context = m, ref = 0, relations = []\<rparr>),
         next_context := Suc (next_context w),
         kure := k1\<rparr>))"

definition Relation_init :: "world \<Rightarrow> addr \<Rightarrow> int \<Rightarrow> addr \<Rightarrow> (exn + Relation) \<times> world" where
  "Relation_init w ctx rf h =
     (let (ro, k1) = kure_rel_get_rows_si (kure w) h;
          (co, k2) = kure_rel_get_cols_si k1 h
      in case (ro, co) of
           (Some r, Some c) \<Rightarrow>
             (Inr \<lparr>r_context = ctx, r_ref = rf, rel = h, rows = r, cols = c\<rparr>, w\<lparr>kure := k2\<rparr>)
         | _ \<Rightarrow> (Inl InvalidPointer, w\<lparr>kure := k2\<rparr>))"

text \<open>
  \<open>_kure_error\<close>: the exception built from the last-error slot of the manager of the
  relation's context. Reading an empty slot is ctypes' \<open>ValueError\<close> (NULL pointer access).
\<close>

definition kure_error :: "world \<Rightarrow> Relation \<Rightarrow> exn" where
  "kure_error w self =
     (case error (kure w) (c_context (contexts w (r_context self))) of
        None \<Rightarrow> ValueError
      | Some e \<Rightarrow> PyrelException (message e) (Some (code e)))"

definition set_bit_rel :: "world \<Rightarrow> Relation \<Rightarrow> pyobj \<Rightarrow> pyobj \<Rightarrow> bool \<Rightarrow> (exn + unit) \<times> world" where
  "set_bit_rel w self row col yesno =
     (case (c_int_arg row, c_int_arg col) of
        (Some r, Some c) \<Rightarrow>
          (let (ok, k1) = kure_set_bit_si (kure w) (rel self) yesno r c;
               w1 = w\<lparr>kure := k1\<rparr>
           in if ok then (Inr (), w1) else (Inl (kure_error w1 self), w1))
      | _ \<Rightarrow> (Inl ArgumentError, w))"

text \<open>The body of the \<open>for\<close> loop of \<open>set_bits\<close>, over the items still to come.\<close>

fun set_bits_loop :: "world \<Rightarrow> Relation \<Rightarrow> pyobj list \<Rightarrow> bool \<Rightarrow> (exn + unit) \<times> world" where
  "set_bits_loop w self [] yesno = (Inr (), w)"
| "set_bits_loop w self (x # xs) yesno =
     (case unpack2 x of
        Inl e \<Rightarrow> (Inl e, w)
      | Inr (row, col) \<Rightarrow>
          (case set_bit_rel w self row col yesno of
             (Inl e, w1) \<Rightarrow> (Inl e, w1)
           | (Inr u, w1) \<Rightarrow> set_bits_loop w1 self xs yesno))"

text \<open>\<open>except (TypeError, ValueError): raise PyrelException("Invalid (row, col) bit pair.")\<close>\<close>

fun except_pair :: "exn \<Rightarrow> exn" where
  "except_pair TypeError = InvalidBitPair"
| "except_pair ValueError = InvalidBitPair"
| "except_pair e = e"

definition set_bits :: "world \<Rightarrow> Relation \<Rightarrow> pyobj \<Rightarrow> bool \<Rightarrow> (exn + unit) \<times> world" where
  "set_bits w self bits yesno =
     (case py_iter bits of
        None \<Rightarrow> (Inl (except_pair TypeError), w)
      | Some xs \<Rightarrow>
          (case set_bits_loop w self xs yesno of
             (Inl e, w1) \<Rightarrow> (Inl (except_pair e), w1)
           | (Inr u, w1) \<Rightarrow> (Inr (), w1)))"

definition new :: "world \<Rightarrow> addr \<Rightarrow> pyobj \<Rightarrow> pyobj \<Rightarrow> pyobj \<Rightarrow> (exn + Relation) \<times> world" where
  "new w self rws cls bits =
     (case (type_int rws, type_int cls) of
        (Some r, Some c) \<Rightarrow>
          if (r = 0 \<and> c = 0) \<or> (r > 0 \<and> c > 0) then
            (let cx = contexts w self;
                 (h, k1) = kure_rel_new_with_size_si (kure w) (c_context cx) (c_int r) (c_int c);
                 cx1 = cx\<lparr>ref := ref cx + 1\<rparr>;
                 cx2 = cx1\<lparr>relations := AList.update (ref cx1) h (relations cx1)\<rparr>;
                 w1 = w\<lparr>contexts := (contexts w)(self := cx2), kure := k1\<rparr>
             in case Relation_init w1 self (ref cx2) h of
                  (Inl e, w2) \<Rightarrow> (Inl e, w2)
                | (Inr relation, w2) \<Rightarrow>
                    if truthy bits then
                      (case set_bits w2 relation bits True of
                         (Inl e, w3) \<Rightarrow> (Inl e, w3)
                       | (Inr u, w3) \<Rightarrow> (Inr relation, w3))
                    else (Inr relation, w2))
          else (Inl InvalidDimension, w)
      | _ \<Rightarrow> (Inl InvalidDimension, w))"


subsection \<open>PyrelContext: tracking and destroying relations\<close>

text \<open>\<open>_add\<close>: track a handle under the next reference number, and return the number.\<close>

definition ctx_add :: "world \<Rightarrow> addr \<Rightarrow> addr \<Rightarrow> int \<times> world" where
  "ctx_add w self h =
     (let cx = contexts w self;
          cx1 = cx\<lparr>ref := ref cx + 1\<rparr>;
          cx2 = cx1\<lparr>relations := AList.update (ref cx1) h (relations cx1)\<rparr>
      in (ref cx2, w\<lparr>contexts := (contexts w)(self := cx2)\<rparr>))"

text \<open>
  A dictionary lookup hashes its key: a list is unhashable, and so is a \<open>Relation\<close> (the
  class defines \<open>__eq__\<close> and no \<open>__hash__\<close>). A key equal to an int finds the int's
  entry.
\<close>

fun hashable :: "pyobj \<Rightarrow> bool" where
  "hashable (PyList xs) = False"
| "hashable (PyRelation r) = False"
| "hashable (PyTuple xs) = (\<forall>x \<in> set xs. hashable x)"
| "hashable _ = True"

fun int_key :: "pyobj \<Rightarrow> int option" where
  "int_key (PyInt n) = Some n"
| "int_key (PyBool b) = Some (if b then 1 else 0)"
| "int_key (PyFloat (Fin x)) = (if x = of_int \<lfloor>x\<rfloor> then Some \<lfloor>x\<rfloor> else None)"
| "int_key _ = None"

definition delete :: "world \<Rightarrow> addr \<Rightarrow> pyobj \<Rightarrow> (exn + unit) \<times> world" where
  "delete w self toDelete =
     (let key = (case toDelete of PyRelation r \<Rightarrow> PyInt (r_ref r) | x \<Rightarrow> x);
          cx = contexts w self
      in if \<not> hashable key then (Inl TypeError, w)
         else case int_key key of
                None \<Rightarrow> (Inr (), w)
              | Some n \<Rightarrow>
                  (case map_of (relations cx) n of
                     None \<Rightarrow> (Inr (), w)
                   | Some h \<Rightarrow>
                       if h \<noteq> 0 then
                         (Inr (),
                          w\<lparr>contexts := (contexts w)
                               (self := cx\<lparr>relations := AList.delete n (relations cx)\<rparr>),
                            kure := kure_rel_destroy (kure w) h\<rparr>)
                       else (Inr (), w)))"

text \<open>\<open>clean\<close>: \<open>popitem\<close> takes the entry inserted last, until the dictionary is empty.\<close>

fun clean_loop :: "Kure \<Rightarrow> (int \<times> addr) list \<Rightarrow> Kure" where
  "clean_loop k [] = k"
| "clean_loop k (p # ps) = clean_loop (kure_rel_destroy k (snd p)) ps"

definition clean :: "world \<Rightarrow> addr \<Rightarrow> world" where
  "clean w self =
     (let cx = contexts w self
      in w\<lparr>contexts := (contexts w)(self := cx\<lparr>relations := []\<rparr>),
           kure := clean_loop (kure w) (rev (relations cx))\<rparr>)"

subsection \<open>Relation: mutation in place\<close>

definition clear :: "world \<Rightarrow> Relation \<Rightarrow> (exn + unit) \<times> world" where
  "clear w self =
     (let (success, k1) = kure_O (kure w) (rel self);
          w1 = w\<lparr>kure := k1\<rparr>
      in if \<not> success then (Inl (kure_error w1 self), w1) else (Inr (), w1))"

text \<open>
  \<open>random\<close>: the result of \<open>kure._random_simple\<close> is a \<open>bytes\<close> object of length one,
  which is true whatever byte it holds, so \<open>if not success\<close> never fires.
\<close>

definition random :: "world \<Rightarrow> Relation \<Rightarrow> pyobj \<Rightarrow> (int \<times> int) set \<Rightarrow> (exn + unit) \<times> world" where
  "random w self prob pick =
     (case clear w self of
        (Inl e, w1) \<Rightarrow> (Inl e, w1)
      | (Inr u, w1) \<Rightarrow>
          (case is_float prob of
             Some p \<Rightarrow>
               if float_pos p then
                 (let (success, k2) =
                        kure_random_simple (kure w1) (rel self) (c_float (min_one p)) pick
                  in (Inr (), w1\<lparr>kure := k2\<rparr>))
               else (Inl InvalidArgument, w1)
           | None \<Rightarrow> (Inl InvalidArgument, w1)))"

subsection \<open>Relation: algebra and comparisons\<close>

text \<open>\<open>_is_relation\<close>: the argument as a Relation, or the exception.\<close>

fun is_relation :: "pyobj \<Rightarrow> exn + Relation" where
  "is_relation (PyRelation r) = Inr r"
| "is_relation _ = Inl TypeMismatch"

text \<open>
  The tail shared by the producing operations:
  \<open>if success: return result / else: self._kure_error()\<close>.
\<close>

definition result_or_error ::
  "world \<Rightarrow> Relation \<Rightarrow> Relation \<Rightarrow> bool \<times> Kure \<Rightarrow> (exn + Relation) \<times> world" where
  "result_or_error w self result p =
     (let w1 = w\<lparr>kure := snd p\<rparr>
      in if fst p then (Inr result, w1) else (Inl (kure_error w1 self), w1))"

definition meet :: "world \<Rightarrow> Relation \<Rightarrow> pyobj \<Rightarrow> (exn + Relation) \<times> world" where
  "meet w self other =
     (case is_relation other of
        Inl e \<Rightarrow> (Inl e, w)
      | Inr ot \<Rightarrow>
          (case new w (r_context self) (PyInt (rows self)) (PyInt (cols self)) PyNone of
             (Inl e, w1) \<Rightarrow> (Inl e, w1)
           | (Inr result, w1) \<Rightarrow>
               result_or_error w1 self result
                 (kure_and (kure w1) (rel result) (rel self) (rel ot))))"

definition join :: "world \<Rightarrow> Relation \<Rightarrow> pyobj \<Rightarrow> (exn + Relation) \<times> world" where
  "join w self other =
     (case is_relation other of
        Inl e \<Rightarrow> (Inl e, w)
      | Inr ot \<Rightarrow>
          (case new w (r_context self) (PyInt (rows self)) (PyInt (cols self)) PyNone of
             (Inl e, w1) \<Rightarrow> (Inl e, w1)
           | (Inr result, w1) \<Rightarrow>
               result_or_error w1 self result
                 (kure_or (kure w1) (rel result) (rel self) (rel ot))))"

definition transpose_rel :: "world \<Rightarrow> Relation \<Rightarrow> (exn + Relation) \<times> world" where
  "transpose_rel w self =
     (case new w (r_context self) (PyInt (rows self)) (PyInt (cols self)) PyNone of
        (Inl e, w1) \<Rightarrow> (Inl e, w1)
      | (Inr result, w1) \<Rightarrow>
          result_or_error w1 self result (kure_transpose (kure w1) (rel result) (rel self)))"

definition complement :: "world \<Rightarrow> Relation \<Rightarrow> (exn + Relation) \<times> world" where
  "complement w self =
     (case new w (r_context self) (PyInt (rows self)) (PyInt (cols self)) PyNone of
        (Inl e, w1) \<Rightarrow> (Inl e, w1)
      | (Inr result, w1) \<Rightarrow>
          result_or_error w1 self result (kure_complement (kure w1) (rel result) (rel self)))"

definition composition :: "world \<Rightarrow> Relation \<Rightarrow> pyobj \<Rightarrow> (exn + Relation) \<times> world" where
  "composition w self other =
     (case is_relation other of
        Inl e \<Rightarrow> (Inl e, w)
      | Inr ot \<Rightarrow>
          (case new w (r_context self) (PyInt (rows self)) (PyInt (cols self)) PyNone of
             (Inl e, w1) \<Rightarrow> (Inl e, w1)
           | (Inr result, w1) \<Rightarrow>
               result_or_error w1 self result
                 (kure_mult (kure w1) (rel result) (rel self) (rel ot))))"

text \<open>
  The tail shared by the comparisons: \<open>psuccess\<close> tells a definite answer from a
  failure of the engine.
\<close>

definition answer_or_error ::
  "world \<Rightarrow> Relation \<Rightarrow> (bool \<times> bool) \<times> Kure \<Rightarrow> (exn + bool) \<times> world" where
  "answer_or_error w self p =
     (let w1 = w\<lparr>kure := snd p\<rparr>
      in if snd (fst p) then (Inr (fst (fst p)), w1) else (Inl (kure_error w1 self), w1))"

definition equals :: "world \<Rightarrow> Relation \<Rightarrow> pyobj \<Rightarrow> (exn + bool) \<times> world" where
  "equals w self other =
     (case is_relation other of
        Inl e \<Rightarrow> (Inl e, w)
      | Inr ot \<Rightarrow> answer_or_error w self (kure_equals (kure w) (rel self) (rel ot)))"

definition isSuperset :: "world \<Rightarrow> Relation \<Rightarrow> pyobj \<Rightarrow> (exn + bool) \<times> world" where
  "isSuperset w self other =
     (case is_relation other of
        Inl e \<Rightarrow> (Inl e, w)
      | Inr ot \<Rightarrow> answer_or_error w self (kure_includes (kure w) (rel ot) (rel self)))"

definition isSubset :: "world \<Rightarrow> Relation \<Rightarrow> pyobj \<Rightarrow> (exn + bool) \<times> world" where
  "isSubset w self other =
     (case is_relation other of
        Inl e \<Rightarrow> (Inl e, w)
      | Inr ot \<Rightarrow> answer_or_error w self (kure_includes (kure w) (rel self) (rel ot)))"

text \<open>\<open>__eq__\<close> and \<open>__ne__\<close>; \<open>isinstance(other, self.__class__)\<close> holds of Relations only.\<close>

definition eq :: "world \<Rightarrow> Relation \<Rightarrow> pyobj \<Rightarrow> (exn + bool) \<times> world" where
  "eq w self other =
     (case other of
        PyRelation ot \<Rightarrow> equals w self other
      | _ \<Rightarrow> (Inr False, w))"

definition ne :: "world \<Rightarrow> Relation \<Rightarrow> pyobj \<Rightarrow> (exn + bool) \<times> world" where
  "ne w self other =
     (case eq w self other of
        (Inl e, w1) \<Rightarrow> (Inl e, w1)
      | (Inr b, w1) \<Rightarrow> (Inr (\<not> b), w1))"


section \<open>Vocabulary of the statements\<close>

subsection \<open>Sequences of context operations\<close>

text \<open>
  The operations on one context, and what a run of them does to the context: the value of
  the counter \<open>ref\<close> before and after every operation, and the bindings of a reference
  number to a handle that the operations enter into \<open>relations\<close>.
\<close>

datatype ctx_op = Op_new pyobj pyobj pyobj | Op_add addr | Op_delete pyobj | Op_clean

fun ctx_step :: "world \<Rightarrow> addr \<Rightarrow> ctx_op \<Rightarrow> world" where
  "ctx_step w c (Op_new r cl b) = snd (new w c r cl b)"
| "ctx_step w c (Op_add h) = snd (ctx_add w c h)"
| "ctx_step w c (Op_delete x) = snd (delete w c x)"
| "ctx_step w c Op_clean = clean w c"

definition bound_by :: "(int \<times> addr) list \<Rightarrow> (int \<times> addr) list \<Rightarrow> (int \<times> addr) list" where
  "bound_by before after = filter (\<lambda>p. map_of before (fst p) \<noteq> Some (snd p)) after"

fun assignments :: "world \<Rightarrow> addr \<Rightarrow> ctx_op list \<Rightarrow> (int \<times> addr) list" where
  "assignments w c [] = []"
| "assignments w c (x # xs) =
     bound_by (relations (contexts w c)) (relations (contexts (ctx_step w c x) c))
       @ assignments (ctx_step w c x) c xs"

fun counters :: "world \<Rightarrow> addr \<Rightarrow> ctx_op list \<Rightarrow> int list" where
  "counters w c [] = [ref (contexts w c)]"
| "counters w c (x # xs) = ref (contexts w c) # counters (ctx_step w c x) c xs"

text \<open>
  What holds of \<open>relations\<close> in every context: a dictionary has each key once, and no
  key is beyond the counter.
\<close>

definition tracked_ok :: "PyrelContext \<Rightarrow> bool" where
  "tracked_ok cx = (distinct (map fst (relations cx)) \<and> (\<forall>n \<in> fst ` set (relations cx). n \<le> ref cx))"

text \<open>The context after \<open>self.ref += 1; self.relations[self.ref] = h\<close>.\<close>

definition bumped :: "PyrelContext \<Rightarrow> addr \<Rightarrow> PyrelContext" where
  "bumped cx h = cx\<lparr>ref := ref cx + 1, relations := AList.update (ref cx + 1) h (relations cx)\<rparr>"


subsection \<open>Exceptions of the bit-setting operations\<close>

text \<open>
  What \<open>set_bits\<close> can raise: the exception of its \<open>except\<close> clause, the argument error
  of the foreign call, or an error reported by the engine.
\<close>

definition bit_error :: "exn \<Rightarrow> bool" where
  "bit_error e = (e = InvalidBitPair \<or> e = ArgumentError \<or> is_EngineError e)"

subsection \<open>Lists of coordinate pairs\<close>



subsection \<open>Example worlds\<close>

text \<open>
  A world with one context (\<open>demo_world\<close>), and worlds in which relations have been
  created in it: a 2\<times>2 relation with the bit (0,0) set, an empty 4\<times>4 relation, a 3\<times>5
  relation with the bit (0,4), a 2\<times>3 and a 3\<times>4 relation with the bits (0,1) and (1,3).
  \<open>two_contexts\<close> has two contexts with one 2\<times>2 relation each. The records are the
  Relation objects that \<open>new\<close> returned.
\<close>

definition demo_ctx :: addr where
  "demo_ctx = fst (PyrelContext_init world_init)"

definition demo_world :: world where
  "demo_world = snd (PyrelContext_init world_init)"

definition demo_rel :: Relation where
  "demo_rel = \<lparr>r_context = 0, r_ref = 1, rel = 2, rows = 2, cols = 2\<rparr>"

definition demo_world1 :: world where
  "demo_world1 = snd (new demo_world demo_ctx (PyInt 2) (PyInt 2) (PyList [PyTuple [PyInt 0, PyInt 0]]))"



definition world_3x5 :: world where
  "world_3x5 = snd (new demo_world demo_ctx (PyInt 3) (PyInt 5) (PyList [PyTuple [PyInt 0, PyInt 4]]))"

definition rel_3x5 :: Relation where
  "rel_3x5 = \<lparr>r_context = 0, r_ref = 1, rel = 2, rows = 3, cols = 5\<rparr>"

definition world_2x3_3x4 :: world where
  "world_2x3_3x4 =
     snd (new (snd (new demo_world demo_ctx (PyInt 2) (PyInt 3) (PyList [PyTuple [PyInt 0, PyInt 1]])))
            demo_ctx (PyInt 3) (PyInt 4) (PyList [PyTuple [PyInt 1, PyInt 3]]))"

definition rel_2x3 :: Relation where
  "rel_2x3 = \<lparr>r_context = 0, r_ref = 1, rel = 2, rows = 2, cols = 3\<rparr>"

definition rel_3x4 :: Relation where
  "rel_3x4 = \<lparr>r_context = 0, r_ref = 2, rel = 3, rows = 3, cols = 4\<rparr>"

definition two_contexts :: world where
  "two_contexts =
     snd (new
       (snd (new (snd (PyrelContext_init (snd (PyrelContext_init world_init)))) 0
               (PyInt 2) (PyInt 2) (PyList [PyTuple [PyInt 0, PyInt 0], PyTuple [PyInt 1, PyInt 1]])))
       1 (PyInt 2) (PyInt 2) (PyList [PyTuple [PyInt 0, PyInt 0]]))"

definition rel_a :: Relation where
  "rel_a = \<lparr>r_context = 0, r_ref = 1, rel = 3, rows = 2, cols = 2\<rparr>"

definition rel_b :: Relation where
  "rel_b = \<lparr>r_context = 1, r_ref = 1, rel = 4, rows = 2, cols = 2\<rparr>"

section \<open>The reference counter\<close>

lemma set_bit_contexts: "contexts (snd (set_bit_rel w r a b y)) = contexts w"
  by (simp add: set_bit_rel_def Let_def split: option.splits prod.splits)

lemma set_bits_loop_contexts: "contexts (snd (set_bits_loop w r xs y)) = contexts w"
proof (induction xs arbitrary: w)
  case Nil
  then show ?case by simp
next
  case (Cons x xs)
  show ?case
  proof (cases "unpack2 x")
    case (Inl e)
    then show ?thesis by simp
  next
    case (Inr p)
    obtain a b where p: "p = (a, b)" by (cases p)
    obtain res w1 where s: "set_bit_rel w r a b y = (res, w1)" by (cases "set_bit_rel w r a b y")
    have w1: "contexts w1 = contexts w" using set_bit_contexts [of w r a b y] s by simp
    show ?thesis
    proof (cases res)
      case (Inl e)
      then show ?thesis using Inr p s w1 by simp
    next
      case (Inr u)
      then show ?thesis using \<open>unpack2 x = Inr p\<close> p s w1 Cons.IH [of w1] by simp
    qed
  qed
qed

lemma set_bits_contexts: "contexts (snd (set_bits w r bits y)) = contexts w"
proof (cases "py_iter bits")
  case None
  then show ?thesis by (simp add: set_bits_def)
next
  case (Some xs)
  obtain res w1 where s: "set_bits_loop w r xs y = (res, w1)" by (cases "set_bits_loop w r xs y")
  have "contexts w1 = contexts w" using set_bits_loop_contexts [of w r xs y] s by simp
  then show ?thesis using Some s by (cases res) (simp_all add: set_bits_def)
qed

lemma Relation_init_contexts: "contexts (snd (Relation_init w c n h)) = contexts w"
  by (simp add: Relation_init_def Let_def split: prod.splits option.splits)


lemma new_contexts:
  "contexts (snd (new w c r cl b)) = contexts w \<or>
   (\<exists>h. contexts (snd (new w c r cl b)) = (contexts w)(c := bumped (contexts w c) h))"
proof (cases "\<exists>rr cc. type_int r = Some rr \<and> type_int cl = Some cc \<and> ((rr = 0 \<and> cc = 0) \<or> (rr > 0 \<and> cc > 0))")
  case False
  then have "new w c r cl b = (Inl InvalidDimension, w)"
    by (auto simp: new_def split: option.splits)
  then show ?thesis by simp
next
  case True
  then obtain rr cc where t: "type_int r = Some rr" "type_int cl = Some cc"
    and v: "(rr = 0 \<and> cc = 0) \<or> (rr > 0 \<and> cc > 0)" by blast
  define cx where "cx = contexts w c"
  define h where "h = next_addr (kure w)"
  define k1 where "k1 = snd (kure_rel_new_with_size_si (kure w) (c_context cx) (c_int rr) (c_int cc))"
  define w1 where "w1 = w\<lparr>contexts := (contexts w)(c := bumped cx h), kure := k1\<rparr>"
  obtain res w2 where ri: "Relation_init w1 c (ref cx + 1) h = (res, w2)"
    by (cases "Relation_init w1 c (ref cx + 1) h")
  have w2: "contexts w2 = contexts w1" using Relation_init_contexts [of w1 c "ref cx + 1" h] ri by simp
  have n: "new w c r cl b =
     (case res of Inl e \<Rightarrow> (Inl e, w2)
      | Inr relation \<Rightarrow> if truthy b then
            (case set_bits w2 relation b True of (Inl e, w3) \<Rightarrow> (Inl e, w3) | (Inr u, w3) \<Rightarrow> (Inr relation, w3))
          else (Inr relation, w2))"
    using t v ri
    by (simp add: new_def Let_def kure_rel_new_with_size_si_def w1_def k1_def h_def cx_def bumped_def)
  have "contexts (snd (new w c r cl b)) = contexts w1"
  proof (cases res)
    case (Inl e)
    then show ?thesis using n w2 by simp
  next
    case (Inr relation)
    obtain res3 w3 where sb: "set_bits w2 relation b True = (res3, w3)" by (cases "set_bits w2 relation b True")
    have "contexts w3 = contexts w2" using set_bits_contexts [of w2 relation b True] sb by simp
    then show ?thesis using n w2 Inr sb by (cases res3) simp_all
  qed
  then show ?thesis by (auto simp: w1_def cx_def)
qed


lemma ctx_step_cases:
  "(ref (contexts (ctx_step w c x) c) = ref (contexts w c) \<and>
    (\<exists>P. relations (contexts (ctx_step w c x) c) = filter P (relations (contexts w c)))) \<or>
   (\<exists>h. contexts (ctx_step w c x) c = bumped (contexts w c) h)"
proof (cases x)
  case (Op_new r cl b)
  have "filter (\<lambda>p. True) (relations (contexts w c)) = relations (contexts w c)" by simp
  then show ?thesis using new_contexts [of w c r cl b] Op_new by (metis ctx_step.simps(1) fun_upd_same)
next
  case (Op_add h)
  have "contexts (ctx_step w c x) c = bumped (contexts w c) h"
    using Op_add by (simp add: ctx_add_def Let_def bumped_def)
  then show ?thesis by blast
next
  case (Op_delete y)
  have "contexts (snd (delete w c y)) c = contexts w c \<or>
        (\<exists>n. contexts (snd (delete w c y)) c =
           (contexts w c)\<lparr>relations := AList.delete n (relations (contexts w c))\<rparr>)"
    by (auto simp add: delete_def Let_def split: option.splits)
  then show ?thesis
  proof
    assume "contexts (snd (delete w c y)) c = contexts w c"
    moreover have "relations (contexts w c) = filter (\<lambda>p. True) (relations (contexts w c))" by simp
    ultimately show ?thesis using Op_delete by (metis ctx_step.simps(3))
  next
    assume "\<exists>n. contexts (snd (delete w c y)) c =
           (contexts w c)\<lparr>relations := AList.delete n (relations (contexts w c))\<rparr>"
    then obtain n where n: "contexts (snd (delete w c y)) c =
           (contexts w c)\<lparr>relations := AList.delete n (relations (contexts w c))\<rparr>" by blast
    have "AList.delete n (relations (contexts w c)) = filter (\<lambda>p. fst p \<noteq> n) (relations (contexts w c))"
      by (simp add: AList.delete_eq case_prod_unfold) metis
    then show ?thesis using Op_delete n by auto
  qed
next
  case Op_clean
  have "filter (\<lambda>p. False) (relations (contexts w c)) = []" by simp
  then show ?thesis using Op_clean by (simp add: clean_def Let_def) (metis filter_False)
qed

lemma bound_by_filter:
  "distinct (map fst xs) \<Longrightarrow> bound_by xs (filter P xs) = []"
  by (auto simp: bound_by_def filter_empty_conv)

lemma update_fresh: "k \<notin> fst ` set al \<Longrightarrow> AList.update k v al = al @ [(k, v)]"
  by (induction al) auto

lemma bound_by_bumped:
  "tracked_ok cx \<Longrightarrow> bound_by (relations cx) (relations (bumped cx h)) = [(ref cx + 1, h)]"
proof -
  assume t: "tracked_ok cx"
  then have fresh: "ref cx + 1 \<notin> fst ` set (relations cx)" by (fastforce simp: tracked_ok_def)
  then have u: "relations (bumped cx h) = relations cx @ [(ref cx + 1, h)]"
    by (simp add: bumped_def update_fresh)
  have "map_of (relations cx) (ref cx + 1) = None" using fresh by (simp add: map_of_eq_None_iff)
  moreover have "filter (\<lambda>p. map_of (relations cx) (fst p) \<noteq> Some (snd p)) (relations cx) = []"
    using t by (auto simp: tracked_ok_def filter_empty_conv)
  ultimately show ?thesis by (simp add: bound_by_def u)
qed

lemma tracked_ok_bumped: "tracked_ok cx \<Longrightarrow> tracked_ok (bumped cx h)"
proof -
  assume t: "tracked_ok cx"
  then have fresh: "ref cx + 1 \<notin> fst ` set (relations cx)" by (fastforce simp: tracked_ok_def)
  then have u: "relations (bumped cx h) = relations cx @ [(ref cx + 1, h)]"
    by (simp add: bumped_def update_fresh)
  have r: "ref (bumped cx h) = ref cx + 1" by (simp add: bumped_def)
  show ?thesis using t fresh unfolding tracked_ok_def u r by fastforce
qed

lemma tracked_ok_filter:
  "tracked_ok cx \<Longrightarrow> ref cx' = ref cx \<Longrightarrow> relations cx' = filter P (relations cx) \<Longrightarrow> tracked_ok cx'"
  by (auto simp: tracked_ok_def distinct_map_filter)

lemma run_refs:
  "tracked_ok (contexts w c) \<Longrightarrow>
     sorted (counters w c xs) \<and>
     (\<forall>n \<in> set (counters w c xs). ref (contexts w c) \<le> n) \<and>
     sorted_wrt (<) (map fst (assignments w c xs)) \<and>
     (\<forall>n \<in> set (map fst (assignments w c xs)). ref (contexts w c) < n)"
proof (induction xs arbitrary: w)
  case Nil
  then show ?case by simp
next
  case (Cons x xs)
  let ?w = "ctx_step w c x"
  from ctx_step_cases [of w c x] show ?case
  proof
    assume a: "ref (contexts ?w c) = ref (contexts w c) \<and>
      (\<exists>P. relations (contexts ?w c) = filter P (relations (contexts w c)))"
    then obtain P where P: "relations (contexts ?w c) = filter P (relations (contexts w c))" by blast
    have ok: "tracked_ok (contexts ?w c)" using tracked_ok_filter [OF Cons.prems _ P] a by simp
    have b: "bound_by (relations (contexts w c)) (relations (contexts ?w c)) = []"
      using Cons.prems P by (simp add: bound_by_filter tracked_ok_def)
    show ?thesis using Cons.IH [OF ok] a b by auto
  next
    assume "\<exists>h. contexts ?w c = bumped (contexts w c) h"
    then obtain h where h: "contexts ?w c = bumped (contexts w c) h" by blast
    have ok: "tracked_ok (contexts ?w c)" using tracked_ok_bumped [OF Cons.prems] h by simp
    have b: "bound_by (relations (contexts w c)) (relations (contexts ?w c)) = [(ref (contexts w c) + 1, h)]"
      using bound_by_bumped [OF Cons.prems] h by simp
    have r: "ref (contexts ?w c) = ref (contexts w c) + 1" using h by (simp add: bumped_def)
    show ?thesis using Cons.IH [OF ok] b r by (fastforce)
  qed
qed

lemma init_tracked_ok: "tracked_ok (contexts (snd (PyrelContext_init w)) (fst (PyrelContext_init w)))"
  by (simp add: PyrelContext_init_def tracked_ok_def Let_def split: prod.splits)


text \<open>
  C9. In a context created by \<open>PyrelContext()\<close>, whatever sequence of \<open>new\<close>, \<open>_add\<close>,
  \<open>delete\<close> and \<open>clean\<close> is run on it, the counter never decreases from one operation
  to the next, and the reference numbers bound to handles along the run are pairwise
  different: a number is not bound again, also after the relation that had it is deleted.
\<close>

theorem C9_reference_numbers:
  "sorted (counters (snd (PyrelContext_init w)) (fst (PyrelContext_init w)) xs) \<and>
   distinct (map fst (assignments (snd (PyrelContext_init w)) (fst (PyrelContext_init w)) xs))"
proof -
  note r = run_refs [OF init_tracked_ok, of w xs]
  from r have "sorted_wrt (<)
     (map fst (assignments (snd (PyrelContext_init w)) (fst (PyrelContext_init w)) xs))"
    by blast
  then have "distinct
     (map fst (assignments (snd (PyrelContext_init w)) (fst (PyrelContext_init w)) xs))"
    by (simp add: strict_sorted_iff)
  with r show ?thesis by blast
qed

theorem C9_reference_numbers_witness:
  "counters (snd (PyrelContext_init world_init)) (fst (PyrelContext_init world_init))
     [Op_new (PyInt 1) (PyInt 1) PyNone, Op_delete (PyInt 1), Op_add 7, Op_clean]
     = [0, 1, 1, 2, 2] \<and>
   map fst (assignments (snd (PyrelContext_init world_init)) (fst (PyrelContext_init world_init))
     [Op_new (PyInt 1) (PyInt 1) PyNone, Op_delete (PyInt 1), Op_add 7, Op_clean])
     = [1, 2] \<and>
   sorted (counters (snd (PyrelContext_init world_init)) (fst (PyrelContext_init world_init))
     [Op_new (PyInt 1) (PyInt 1) PyNone, Op_delete (PyInt 1), Op_add 7, Op_clean]) \<and>
   distinct (map fst (assignments (snd (PyrelContext_init world_init))
     (fst (PyrelContext_init world_init))
     [Op_new (PyInt 1) (PyInt 1) PyNone, Op_delete (PyInt 1), Op_add 7, Op_clean]))"
proof -
  have a: "counters (snd (PyrelContext_init world_init)) (fst (PyrelContext_init world_init))
     [Op_new (PyInt 1) (PyInt 1) PyNone, Op_delete (PyInt 1), Op_add 7, Op_clean]
     = [0, 1, 1, 2, 2]"
    by code_simp
  have b: "map fst (assignments (snd (PyrelContext_init world_init))
     (fst (PyrelContext_init world_init))
     [Op_new (PyInt 1) (PyInt 1) PyNone, Op_delete (PyInt 1), Op_add 7, Op_clean])
     = [1, 2]"
    by code_simp
  show ?thesis
    using a b C9_reference_numbers [of world_init
      "[Op_new (PyInt 1) (PyInt 1) PyNone, Op_delete (PyInt 1), Op_add 7, Op_clean]"]
    by blast
qed

section \<open>Creating relations\<close>

lemma c_int_id: "- 2147483648 \<le> n \<Longrightarrow> n \<le> 2147483647 \<Longrightarrow> c_int n = n"
  by (simp add: c_int_def)

lemma new_valid:
  assumes "(r = 0 \<and> c = 0) \<or> (0 < r \<and> 0 < c)"
  shows "new w ctx (PyInt r) (PyInt c) PyNone =
     (Inr \<lparr>r_context = ctx, r_ref = ref (contexts w ctx) + 1, rel = next_addr (kure w),
           rows = c_int r, cols = c_int c\<rparr>,
      w\<lparr>contexts := (contexts w)(ctx := bumped (contexts w ctx) (next_addr (kure w))),
        kure := logged (K_rel_get_cols_si (next_addr (kure w)))
                 (logged (K_rel_get_rows_si (next_addr (kure w)))
                   (snd (kure_rel_new_with_size_si (kure w) (c_context (contexts w ctx)) (c_int r) (c_int c))))\<rparr>)"
  using assms
  by (simp add: new_def Let_def kure_rel_new_with_size_si_def Relation_init_def
      kure_rel_get_rows_si_def kure_rel_get_cols_si_def logged_def bumped_def)

lemma new_invalid:
  "\<not> ((r = 0 \<and> c = 0) \<or> (0 < r \<and> 0 < c)) \<Longrightarrow>
     new w ctx (PyInt r) (PyInt c) bits = (Inl InvalidDimension, w)"
  by (auto simp: new_def)

lemma new_valid_bits:
  assumes "(r = 0 \<and> c = 0) \<or> (0 < r \<and> 0 < c)"
  shows "new w ctx (PyInt r) (PyInt c) bits =
     (if truthy bits then
        (case set_bits (snd (new w ctx (PyInt r) (PyInt c) PyNone))
                 \<lparr>r_context = ctx, r_ref = ref (contexts w ctx) + 1, rel = next_addr (kure w),
                   rows = c_int r, cols = c_int c\<rparr> bits True of
           (Inl e, w3) \<Rightarrow> (Inl e, w3)
         | (Inr u, w3) \<Rightarrow>
             (Inr \<lparr>r_context = ctx, r_ref = ref (contexts w ctx) + 1, rel = next_addr (kure w),
                   rows = c_int r, cols = c_int c\<rparr>, w3))
      else new w ctx (PyInt r) (PyInt c) PyNone)"
  using assms
  by (simp add: new_def Let_def kure_rel_new_with_size_si_def Relation_init_def
      kure_rel_get_rows_si_def kure_rel_get_cols_si_def logged_def bumped_def)

lemma new_None_calls:
  assumes "(r = 0 \<and> c = 0) \<or> (0 < r \<and> 0 < c)"
  shows "calls (kure (snd (new w ctx (PyInt r) (PyInt c) PyNone))) =
           [K_rel_get_cols_si (next_addr (kure w)), K_rel_get_rows_si (next_addr (kure w)),
            K_rel_new_with_size_si (c_context (contexts w ctx)) (c_int r) (c_int c)]
           @ calls (kure w)"
  by (simp add: new_valid [OF assms] logged_def kure_rel_new_with_size_si_def)

text \<open>
  C4, amended. For integers \<open>r\<close>, \<open>c\<close> that are both zero or both positive and do not
  exceed \<open>2^31 - 1\<close>, the largest value of a C \<open>int\<close>, \<open>new(r, c)\<close> returns a relation whose
  attributes \<open>rows\<close> and \<open>cols\<close> are \<open>r\<close> and \<open>c\<close>, and so does \<open>new(r, c, bits)\<close> whenever it
  returns. For every other pair of integers, and for arguments that are not of type int,
  \<open>new\<close> raises "Invalid dimension." and the world is as before: no engine call was made.
\<close>

theorem C4_mint_dimensions:
  "(((r = 0 \<and> c = 0) \<or> (0 < r \<and> 0 < c)) \<and> r \<le> 2147483647 \<and> c \<le> 2147483647 \<longrightarrow>
      (\<exists>rl w'. new w ctx (PyInt r) (PyInt c) PyNone = (Inr rl, w') \<and> rows rl = r \<and> cols rl = c) \<and>
      (\<forall>rl. fst (new w ctx (PyInt r) (PyInt c) bits) = Inr rl \<longrightarrow> rows rl = r \<and> cols rl = c)) \<and>
   (\<not> ((r = 0 \<and> c = 0) \<or> (0 < r \<and> 0 < c)) \<longrightarrow>
      new w ctx (PyInt r) (PyInt c) bits = (Inl InvalidDimension, w)) \<and>
   (type_int a = None \<or> type_int b = None \<longrightarrow>
      new w ctx a b bits = (Inl InvalidDimension, w))"
proof -
  have p1: "\<exists>rl w'. new w ctx (PyInt r) (PyInt c) PyNone = (Inr rl, w') \<and> rows rl = r \<and> cols rl = c"
    if a: "((r = 0 \<and> c = 0) \<or> (0 < r \<and> 0 < c)) \<and> r \<le> 2147483647 \<and> c \<le> 2147483647"
  proof -
    from a have "c_int r = r" "c_int c = c" by (auto intro!: c_int_id)
    then show ?thesis using a new_valid [of r c w ctx] by simp
  qed
  have p2: "rows rl = r \<and> cols rl = c"
    if a: "((r = 0 \<and> c = 0) \<or> (0 < r \<and> 0 < c)) \<and> r \<le> 2147483647 \<and> c \<le> 2147483647"
      and b: "fst (new w ctx (PyInt r) (PyInt c) bits) = Inr rl" for rl
  proof -
    from a have v: "(r = 0 \<and> c = 0) \<or> (0 < r \<and> 0 < c)" by blast
    from a have ci: "c_int r = r" "c_int c = c" by (auto intro!: c_int_id)
    show ?thesis
    proof (cases "truthy bits")
      case False
      then show ?thesis using b ci new_valid_bits [OF v, of w ctx bits] new_valid [OF v, of w ctx]
        by auto
    next
      case True
      then show ?thesis using b ci new_valid_bits [OF v, of w ctx bits]
        by (auto split: prod.splits sum.splits)
    qed
  qed
  have p3: "new w ctx (PyInt r) (PyInt c) bits = (Inl InvalidDimension, w)"
    if "\<not> ((r = 0 \<and> c = 0) \<or> (0 < r \<and> 0 < c))"
    using that by (rule new_invalid)
  have p4: "new w ctx a b bits = (Inl InvalidDimension, w)"
    if "type_int a = None \<or> type_int b = None"
    using that by (auto simp: new_def split: option.splits)
  from p1 p2 p3 p4 show ?thesis by blast
qed

theorem C4_mint_dimensions_witness:
  "(\<exists>rl w'. new demo_world demo_ctx (PyInt 3) (PyInt 5) PyNone = (Inr rl, w') \<and>
       rows rl = 3 \<and> cols rl = 5) \<and>
   new demo_world demo_ctx (PyInt 0) (PyInt 1) (PyList [PyTuple [PyInt 0, PyInt 0]])
     = (Inl InvalidDimension, demo_world) \<and>
   new demo_world demo_ctx (PyBool True) (PyInt 1) PyNone = (Inl InvalidDimension, demo_world)"
  using C4_mint_dimensions [of 3 5 demo_world demo_ctx "PyNone" "PyBool True" "PyInt 1"]
    C4_mint_dimensions [of 0 1 demo_world demo_ctx "PyList [PyTuple [PyInt 0, PyInt 0]]" "PyBool True" "PyInt 1"]
  by simp

text \<open>
  The claim as stated fails beyond the range of a C \<open>int\<close>: \<open>new(2^32 + 1, 2^32 + 1)\<close>
  passes the check of the dimension, \<open>c_int\<close> keeps the low 32 bits, and the relation
  returned has one row and one column.
\<close>

theorem C4_counterexample:
  "fst (new demo_world demo_ctx (PyInt 4294967297) (PyInt 4294967297) PyNone)
     = Inr \<lparr>r_context = 0, r_ref = 1, rel = 2, rows = 1, cols = 1\<rparr>"
  by code_simp

section \<open>The example relations\<close>

lemma demo_rel_new:
  "fst (new demo_world demo_ctx (PyInt 2) (PyInt 2) (PyList [PyTuple [PyInt 0, PyInt 0]]))
     = Inr demo_rel"
  by code_simp

lemma demo_rel_live:
  "heap (kure demo_world1) (rel demo_rel) =
      Some \<lparr>kr_context = 1, kr_rows = 2, kr_cols = 2, kr_bits = {(0, 0)}\<rparr>"
  by code_simp


section \<open>The equality operators\<close>

text \<open>
  C10. For a Relation \<open>r\<close> and any value \<open>x\<close> that is not a Relation, \<open>r == x\<close> is \<open>False\<close>
  and \<open>r != x\<close> is \<open>True\<close>, no exception is raised and nothing changes, whereas
  \<open>r.equals(x)\<close> raises the exception "argument type must be relation".
\<close>

theorem C10_eq_non_relation:
  "(\<forall>ot. x \<noteq> PyRelation ot) \<Longrightarrow>
     eq w r x = (Inr False, w) \<and> ne w r x = (Inr True, w) \<and> equals w r x = (Inl TypeMismatch, w)"
  by (cases x) (simp_all add: eq_def ne_def equals_def)

theorem C10_eq_non_relation_witness:
  "eq demo_world1 demo_rel (PyInt 3) = (Inr False, demo_world1) \<and>
   ne demo_world1 demo_rel (PyInt 3) = (Inr True, demo_world1) \<and>
   equals demo_world1 demo_rel (PyInt 3) = (Inl TypeMismatch, demo_world1)"
proof -
  have "\<forall>ot. PyInt 3 \<noteq> PyRelation ot" by simp
  then show ?thesis by (rule C10_eq_non_relation)
qed

section \<open>Random fill\<close>

lemma kure_error_not_local:
  "kure_error w r \<noteq> InvalidArgument" "kure_error w r \<noteq> TypeMismatch"
  "kure_error w r \<noteq> InvalidDimension" "kure_error w r \<noteq> InvalidBitPair"
  by (simp_all add: kure_error_def InvalidArgument_def TypeMismatch_def InvalidDimension_def
      InvalidBitPair_def split: option.splits)

lemma kure_error_cases: "kure_error w r = ValueError \<or> is_EngineError (kure_error w r)"
  by (simp add: kure_error_def split: option.splits)

lemma clear_live:
  "heap (kure w) (rel r) = Some kr \<Longrightarrow>
     clear w r = (Inr (), w\<lparr>kure := (logged (K_O (rel r)) (kure w))
        \<lparr>heap := (heap (kure w))(rel r \<mapsto> kr\<lparr>kr_bits := {}\<rparr>)\<rparr>\<rparr>)"
  by (simp add: clear_def kure_O_def Let_def logged_def)

lemma clear_dead:
  "heap (kure w) (rel r) = None \<Longrightarrow>
     clear w r = (Inl (kure_error (w\<lparr>kure := logged (K_O (rel r)) (kure w)\<rparr>) r),
                  w\<lparr>kure := logged (K_O (rel r)) (kure w)\<rparr>)"
  by (simp add: clear_def kure_O_def Let_def logged_def)

lemma random_live:
  assumes "heap (kure w) (rel r) = Some kr"
  shows "random w r prob pick =
    (case is_float prob of
       None \<Rightarrow> (Inl InvalidArgument, snd (clear w r))
     | Some p \<Rightarrow>
         if float_pos p then
           (Inr (), (snd (clear w r))\<lparr>kure :=
              snd (kure_random_simple (kure (snd (clear w r))) (rel r) (c_float (min_one p)) pick)\<rparr>)
         else (Inl InvalidArgument, snd (clear w r)))"
  using clear_live [OF assms]
  by (simp add: random_def Let_def split: option.splits prod.splits)

lemma random_InvalidArgument:
  assumes "fst (random w r prob pick) = Inl InvalidArgument"
  shows "calls (kure (snd (random w r prob pick))) = K_O (rel r) # calls (kure w) \<and>
         map_option kr_bits (heap (kure (snd (random w r prob pick))) (rel r)) = Some {}"
proof (cases "heap (kure w) (rel r)")
  case None
  then show ?thesis using assms kure_error_not_local(1)
    by (simp add: random_def clear_dead)
next
  case (Some kr)
  show ?thesis using assms
    by (auto simp: random_live [OF Some] clear_live [OF Some] logged_def
        split: option.splits if_splits)
qed

lemma c_float_one: "c_float (Fin 1) = Fin 1"
  by code_simp

text \<open>
  The rounding at work: \<open>0.1\<close> becomes \<open>13421773 / 2^27\<close>, which prints as
  \<open>0.10000000149011612\<close>.
\<close>

lemma c_float_tenth: "c_float (Fin (1 / 10)) = Fin (13421773 / 134217728)"
  by code_simp

lemma c_float_min_one: "1 \<le> x \<Longrightarrow> c_float (min_one (Fin x)) = Fin 1"
  by (simp add: c_float_one del: c_float.simps)

text \<open>
  C5, amended. On a relation whose handle is live, \<open>random(prob)\<close> raises the invalid
  argument exception exactly when \<open>prob\<close> is not a float or is a float that is not greater
  than \<open>0.0\<close> (zero, negative, NaN). Every float greater than \<open>0.0\<close> is accepted, values
  above \<open>1.0\<close> included: the probability handed to the engine is \<open>c_float(min(1.0, prob))\<close>,
  the value \<open>min(1.0, prob)\<close> rounded to single precision, which is \<open>1.0\<close> for every
  \<open>prob\<close> from \<open>1.0\<close> on.
\<close>

theorem C5_random_probability:
  assumes "heap (kure w) (rel r) \<noteq> None"
  shows "(is_float prob = None \<longrightarrow> fst (random w r prob pick) = Inl InvalidArgument) \<and>
         (x \<le> 0 \<longrightarrow> fst (random w r (PyFloat (Fin x)) pick) = Inl InvalidArgument) \<and>
         (0 < x \<longrightarrow> fst (random w r (PyFloat (Fin x)) pick) = Inr () \<and>
            hd (calls (kure (snd (random w r (PyFloat (Fin x)) pick))))
              = K_random_simple (rel r) (c_float (min_one (Fin x)))) \<and>
         (1 \<le> x \<longrightarrow> fst (random w r (PyFloat (Fin x)) pick) = Inr () \<and>
            hd (calls (kure (snd (random w r (PyFloat (Fin x)) pick))))
              = K_random_simple (rel r) (Fin 1)) \<and>
         fst (random w r (PyFloat NaN) pick) = Inl InvalidArgument \<and>
         fst (random w r (PyFloat NegInf) pick) = Inl InvalidArgument \<and>
         fst (random w r (PyFloat PosInf) pick) = Inr () \<and>
         hd (calls (kure (snd (random w r (PyFloat PosInf) pick))))
           = K_random_simple (rel r) (Fin 1)"
proof -
  from assms obtain kr where kr: "heap (kure w) (rel r) = Some kr" by blast
  have live: "heap (kure (snd (clear w r))) (rel r) \<noteq> None"
    using clear_live [OF kr] by simp
  have acc: "fst (random w r (PyFloat p) pick) = Inr () \<and>
             hd (calls (kure (snd (random w r (PyFloat p) pick))))
               = K_random_simple (rel r) (c_float (min_one p))"
    if "float_pos p" for p
    using live that
    by (auto simp: random_live [OF kr] kure_random_simple_def Let_def logged_def
        split: option.splits simp del: c_float.simps min_one.simps)
  have rej: "fst (random w r (PyFloat p) pick) = Inl InvalidArgument" if "\<not> float_pos p" for p
    using that by (simp add: random_live [OF kr])
  have non: "fst (random w r prob pick) = Inl InvalidArgument" if "is_float prob = None"
    using that by (simp add: random_live [OF kr])
  have one: "c_float (min_one (Fin x)) = Fin 1" if "1 \<le> x"
    using that by (rule c_float_min_one)
  have inf: "c_float (min_one PosInf) = Fin 1"
    by (simp add: c_float_one del: c_float.simps)
  show ?thesis
    using acc [of "Fin x"] acc [of PosInf] rej [of "Fin x"] rej [of NaN] rej [of NegInf] non one inf
    by (auto simp del: c_float.simps min_one.simps)
qed

theorem C5_random_probability_witness:
  "heap (kure demo_world1) (rel demo_rel) \<noteq> None \<and>
   fst (random demo_world1 demo_rel (PyInt 1) {}) = Inl InvalidArgument \<and>
   fst (random demo_world1 demo_rel (PyFloat (Fin 0)) {}) = Inl InvalidArgument \<and>
   fst (random demo_world1 demo_rel (PyFloat (Fin 3)) {}) = Inr () \<and>
   hd (calls (kure (snd (random demo_world1 demo_rel (PyFloat (Fin 3)) {}))))
      = K_random_simple (rel demo_rel) (Fin 1)"
proof -
  have l: "heap (kure demo_world1) (rel demo_rel) \<noteq> None" by (simp add: demo_rel_live)
  show ?thesis
    using l C5_random_probability [OF l, of "PyInt 1" "{}" 0]
      C5_random_probability [OF l, of "PyInt 1" "{}" 3]
    by (simp add: c_float_min_one del: c_float.simps min_one.simps)
qed

text \<open>
  The claim as stated fails for \<open>prob = 2.0\<close>: no exception, and the engine is asked for a
  fill with probability \<open>1.0\<close>.
\<close>

theorem C5_counterexample:
  "fst (random demo_world1 demo_rel (PyFloat (Fin 2)) {(1, 1)}) = Inr () \<and>
   hd (calls (kure (snd (random demo_world1 demo_rel (PyFloat (Fin 2)) {(1, 1)}))))
     = K_random_simple 2 (Fin 1)"
  by code_simp

section \<open>Errors detected without the engine\<close>

lemma unpack2_error: "unpack2 x = Inl e \<Longrightarrow> e = TypeError \<or> e = ValueError"
  by (auto simp: unpack2_def split: option.splits list.splits)

lemma set_bit_rel_error:
  "set_bit_rel w r a b y = (Inl e, w') \<Longrightarrow> e = ArgumentError \<or> e = ValueError \<or> is_EngineError e"
  using kure_error_cases
  by (auto simp: set_bit_rel_def Let_def split: option.splits prod.splits if_splits)

lemma set_bits_loop_error:
  "set_bits_loop w r xs y = (Inl e, w') \<Longrightarrow> bit_error (except_pair e)"
proof (induction xs arbitrary: w)
  case Nil
  then show ?case by simp
next
  case (Cons x xs)
  show ?case
  proof (cases "unpack2 x")
    case (Inl e')
    then have "e = e'" using Cons.prems by simp
    then show ?thesis using unpack2_error [OF Inl] by (auto simp: bit_error_def)
  next
    case (Inr p)
    obtain a b where p: "p = (a, b)" by (cases p)
    obtain res w1 where s: "set_bit_rel w r a b y = (res, w1)" by (cases "set_bit_rel w r a b y")
    show ?thesis
    proof (cases res)
      case (Inl e')
      then have "e = e'" using Cons.prems Inr p s by simp
      then show ?thesis using set_bit_rel_error [of w r a b y e' w1] s Inl
        by (cases e) (auto simp: bit_error_def)
    next
      case (Inr u)
      then have "set_bits_loop w1 r xs y = (Inl e, w')"
        using Cons.prems \<open>unpack2 x = Inr p\<close> p s by simp
      then show ?thesis by (rule Cons.IH)
    qed
  qed
qed

lemma set_bits_error: "set_bits w r bits y = (Inl e, w') \<Longrightarrow> bit_error e"
proof (cases "py_iter bits")
  case None
  assume "set_bits w r bits y = (Inl e, w')"
  then show ?thesis using None by (auto simp: set_bits_def bit_error_def)
next
  case (Some xs)
  assume a: "set_bits w r bits y = (Inl e, w')"
  obtain res w1 where s: "set_bits_loop w r xs y = (res, w1)" by (cases "set_bits_loop w r xs y")
  show ?thesis
  proof (cases res)
    case (Inl e')
    then have "e = except_pair e'" using a Some s by (simp add: set_bits_def)
    then show ?thesis using set_bits_loop_error [of w r xs y e' w1] s Inl by simp
  next
    case (Inr u)
    then show ?thesis using a Some s by (simp add: set_bits_def)
  qed
qed

lemma bit_error_not_dimension: "bit_error e \<Longrightarrow> e \<noteq> InvalidDimension"
  by (auto simp: bit_error_def InvalidDimension_def InvalidBitPair_def)

lemma new_InvalidDimension_unchanged:
  assumes "fst (new w ctx a b bits) = Inl InvalidDimension"
  shows "snd (new w ctx a b bits) = w"
proof (cases "\<exists>r c. a = PyInt r \<and> b = PyInt c \<and> ((r = 0 \<and> c = 0) \<or> (0 < r \<and> 0 < c))")
  case False
  have "new w ctx a b bits = (Inl InvalidDimension, w)"
  proof (cases "type_int a = None \<or> type_int b = None")
    case True
    then show ?thesis by (auto simp: new_def split: option.splits)
  next
    case False
    then obtain r c where "a = PyInt r" "b = PyInt c"
      by (cases a; cases b) auto
    then show ?thesis using \<open>\<not> (\<exists>r c. a = PyInt r \<and> b = PyInt c \<and> ((r = 0 \<and> c = 0) \<or> (0 < r \<and> 0 < c)))\<close>
      new_invalid [of r c w ctx bits] by blast
  qed
  then show ?thesis by simp
next
  case True
  then obtain r c where ab: "a = PyInt r" "b = PyInt c"
    and v: "(r = 0 \<and> c = 0) \<or> (0 < r \<and> 0 < c)" by blast
  let ?rl = "\<lparr>r_context = ctx, r_ref = ref (contexts w ctx) + 1, rel = next_addr (kure w),
                   rows = c_int r, cols = c_int c\<rparr>"
  let ?w2 = "snd (new w ctx (PyInt r) (PyInt c) PyNone)"
  show ?thesis
  proof (cases "truthy bits")
    case False
    then show ?thesis using assms ab new_valid_bits [OF v, of w ctx bits] new_valid [OF v, of w ctx]
      by simp
  next
    case True
    obtain res w3 where s: "set_bits ?w2 ?rl bits True = (res, w3)"
      by (cases "set_bits ?w2 ?rl bits True")
    show ?thesis
    proof (cases res)
      case (Inl e)
      then have "e \<noteq> InvalidDimension"
        using set_bits_error [of ?w2 ?rl bits True e w3] s bit_error_not_dimension by blast
      moreover have "fst (new w ctx a b bits) = Inl e"
        using ab True s Inl new_valid_bits [OF v, of w ctx bits] by simp
      ultimately show ?thesis using assms by simp
    next
      case (Inr u)
      then have "fst (new w ctx a b bits) = Inr ?rl"
        using ab True s new_valid_bits [OF v, of w ctx bits] by simp
      then show ?thesis using assms by simp
    qed
  qed
qed

lemma kure_write_calls: "calls (snd (kure_write k rop r c bits)) = calls k"
  by (simp add: kure_write_def split: option.splits)

lemma kure_fail_calls: "calls (kure_fail h msg cd k) = calls k"
  by (simp add: kure_fail_def split: option.splits)

lemma kure_and_calls: "calls (snd (kure_and k rop a b)) = K_and rop a b # calls k"
  by (simp add: kure_and_def Let_def logged_def kure_write_calls kure_fail_calls
      split: option.splits)

lemma kure_or_calls: "calls (snd (kure_or k rop a b)) = K_or rop a b # calls k"
  by (simp add: kure_or_def Let_def logged_def kure_write_calls kure_fail_calls
      split: option.splits)

lemma kure_mult_calls: "calls (snd (kure_mult k rop a b)) = K_mult rop a b # calls k"
  by (simp add: kure_mult_def Let_def logged_def kure_write_calls kure_fail_calls
      split: option.splits)

lemma kure_equals_calls: "calls (snd (kure_equals k a b)) = K_equals a b # calls k"
  by (simp add: kure_equals_def Let_def logged_def kure_fail_calls split: option.splits)

lemma kure_includes_calls: "calls (snd (kure_includes k a b)) = K_includes a b # calls k"
  by (simp add: kure_includes_def Let_def logged_def kure_fail_calls split: option.splits)

lemma result_or_error_kure: "kure (snd (result_or_error w self result p)) = snd p"
  by (simp add: result_or_error_def Let_def)

lemma answer_or_error_kure: "kure (snd (answer_or_error w self p)) = snd p"
  by (simp add: answer_or_error_def Let_def)

lemma result_or_error_not_TypeMismatch: "fst (result_or_error w self result p) \<noteq> Inl TypeMismatch"
  by (simp add: result_or_error_def Let_def kure_error_not_local)

lemma answer_or_error_not_TypeMismatch: "fst (answer_or_error w self p) \<noteq> Inl TypeMismatch"
  by (simp add: answer_or_error_def Let_def kure_error_not_local)

lemma TypeMismatch_not_dimension: "TypeMismatch \<noteq> InvalidDimension"
  by (simp add: TypeMismatch_def InvalidDimension_def)

lemma is_relation_cases:
  "is_relation x = Inl TypeMismatch \<or> (\<exists>ot. x = PyRelation ot)"
  by (cases x) simp_all

lemma produce_TypeMismatch:
  assumes "fst (case new w ctx (PyInt r) (PyInt c) PyNone of
             (Inl e, w1) \<Rightarrow> (Inl e, w1)
           | (Inr result, w1) \<Rightarrow> result_or_error w1 self result (f w1 result)) = Inl TypeMismatch"
  shows False
proof (cases "(r = 0 \<and> c = 0) \<or> (0 < r \<and> 0 < c)")
  case True
  show ?thesis using assms result_or_error_not_TypeMismatch
    by (simp add: new_valid [OF True])
next
  case False
  show ?thesis using assms TypeMismatch_not_dimension by (simp add: new_invalid [OF False])
qed

lemma meet_TypeMismatch: "fst (meet w r x) = Inl TypeMismatch \<Longrightarrow> snd (meet w r x) = w"
  using is_relation_cases [of x] produce_TypeMismatch
  by (fastforce simp: meet_def)

lemma join_TypeMismatch: "fst (join w r x) = Inl TypeMismatch \<Longrightarrow> snd (join w r x) = w"
  using is_relation_cases [of x] produce_TypeMismatch
  by (fastforce simp: join_def)

lemma composition_TypeMismatch:
  "fst (composition w r x) = Inl TypeMismatch \<Longrightarrow> snd (composition w r x) = w"
  using is_relation_cases [of x] produce_TypeMismatch
  by (fastforce simp: composition_def)

lemma equals_TypeMismatch: "fst (equals w r x) = Inl TypeMismatch \<Longrightarrow> snd (equals w r x) = w"
  using is_relation_cases [of x] answer_or_error_not_TypeMismatch
  by (fastforce simp: equals_def)

lemma isSubset_TypeMismatch:
  "fst (isSubset w r x) = Inl TypeMismatch \<Longrightarrow> snd (isSubset w r x) = w"
  using is_relation_cases [of x] answer_or_error_not_TypeMismatch
  by (fastforce simp: isSubset_def)

lemma isSuperset_TypeMismatch:
  "fst (isSuperset w r x) = Inl TypeMismatch \<Longrightarrow> snd (isSuperset w r x) = w"
  using is_relation_cases [of x] answer_or_error_not_TypeMismatch
  by (fastforce simp: isSuperset_def)

lemma set_bits_head_malformed:
  "py_iter bits = None \<or> (\<exists>x rest e. py_iter bits = Some (x # rest) \<and> unpack2 x = Inl e) \<Longrightarrow>
     set_bits w r bits y = (Inl InvalidBitPair, w)"
  using unpack2_error by (fastforce simp: set_bits_def)

text \<open>
  The operations other than \<open>random\<close> validate before they call the engine. When \<open>new\<close>
  raises "Invalid dimension.", and when \<open>meet\<close>, \<open>join\<close>, \<open>composition\<close>, \<open>equals\<close>,
  \<open>isSubset\<close> or \<open>isSuperset\<close> raises "argument type must be relation", the world is
  unchanged; so it is when \<open>set_bits\<close> is given a value that is not iterable or whose first
  item does not unpack into two values.
\<close>

lemma local_errors_leave_world:
  "(fst (new w ctx a b bits) = Inl InvalidDimension \<longrightarrow> snd (new w ctx a b bits) = w) \<and>
   (fst (meet w r x) = Inl TypeMismatch \<longrightarrow> snd (meet w r x) = w) \<and>
   (fst (join w r x) = Inl TypeMismatch \<longrightarrow> snd (join w r x) = w) \<and>
   (fst (composition w r x) = Inl TypeMismatch \<longrightarrow> snd (composition w r x) = w) \<and>
   (fst (equals w r x) = Inl TypeMismatch \<longrightarrow> snd (equals w r x) = w) \<and>
   (fst (isSubset w r x) = Inl TypeMismatch \<longrightarrow> snd (isSubset w r x) = w) \<and>
   (fst (isSuperset w r x) = Inl TypeMismatch \<longrightarrow> snd (isSuperset w r x) = w) \<and>
   (py_iter bits = None \<or> (\<exists>y rest e. py_iter bits = Some (y # rest) \<and> unpack2 y = Inl e) \<longrightarrow>
      set_bits w r bits yesno = (Inl InvalidBitPair, w))"
  using new_InvalidDimension_unchanged [of w ctx a b bits]
    meet_TypeMismatch [of w r x] join_TypeMismatch [of w r x] composition_TypeMismatch [of w r x]
    equals_TypeMismatch [of w r x] isSubset_TypeMismatch [of w r x]
    isSuperset_TypeMismatch [of w r x]
    set_bits_head_malformed [of bits w r yesno]
  by blast

text \<open>
  C6, on the code. \<open>random(0.0)\<close> on the 2\<times>2 relation that has the bit (0,0) set raises
  the invalid argument exception, as the claim says, but not before any engine call:
  \<open>random\<close> calls \<open>self.clear()\<close> first and looks at \<open>prob\<close> afterwards. When the
  exception is raised the engine has been called once (\<open>kure_O\<close>), and the relation, which
  had the bit (0,0), has no bit set. The bits are not left unchanged.
\<close>

theorem C6_random_clears_first:
  "fst (random demo_world1 demo_rel (PyFloat (Fin 0)) {}) = Inl InvalidArgument \<and>
   map_option kr_bits (heap (kure demo_world1) (rel demo_rel)) = Some {(0, 0)} \<and>
   calls (kure (snd (random demo_world1 demo_rel (PyFloat (Fin 0)) {})))
     = K_O (rel demo_rel) # calls (kure demo_world1) \<and>
   map_option kr_bits (heap (kure (snd (random demo_world1 demo_rel (PyFloat (Fin 0)) {})))
      (rel demo_rel)) = Some {}"
  by code_simp

section \<open>Operands of another context\<close>

text \<open>
  C3, amended. The only check a binary operation makes on its operand is its type: an
  operand that is not a Relation raises "argument type must be relation" with the world
  unchanged. The context of a Relation operand is never looked at: whatever context the
  operand belongs to, \<open>equals\<close>, \<open>isSubset\<close> and \<open>isSuperset\<close> call the engine's
  comparison, and \<open>meet\<close>, \<open>join\<close> and \<open>composition\<close>, when the receiver's dimensions are
  valid, mint the result and call the engine's operation on the three handles.
\<close>

theorem C3_no_context_check:
  "(is_relation x = Inl TypeMismatch \<longrightarrow>
      meet w r x = (Inl TypeMismatch, w) \<and> join w r x = (Inl TypeMismatch, w) \<and>
      composition w r x = (Inl TypeMismatch, w) \<and> equals w r x = (Inl TypeMismatch, w) \<and>
      isSubset w r x = (Inl TypeMismatch, w) \<and> isSuperset w r x = (Inl TypeMismatch, w)) \<and>
   calls (kure (snd (equals w r (PyRelation ot)))) = K_equals (rel r) (rel ot) # calls (kure w) \<and>
   calls (kure (snd (isSubset w r (PyRelation ot))))
     = K_includes (rel r) (rel ot) # calls (kure w) \<and>
   calls (kure (snd (isSuperset w r (PyRelation ot))))
     = K_includes (rel ot) (rel r) # calls (kure w) \<and>
   ((rows r = 0 \<and> cols r = 0) \<or> (0 < rows r \<and> 0 < cols r) \<longrightarrow>
      calls (kure (snd (meet w r (PyRelation ot))))
        = K_and (next_addr (kure w)) (rel r) (rel ot)
          # calls (kure (snd (new w (r_context r) (PyInt (rows r)) (PyInt (cols r)) PyNone))) \<and>
      calls (kure (snd (join w r (PyRelation ot))))
        = K_or (next_addr (kure w)) (rel r) (rel ot)
          # calls (kure (snd (new w (r_context r) (PyInt (rows r)) (PyInt (cols r)) PyNone))) \<and>
      calls (kure (snd (composition w r (PyRelation ot))))
        = K_mult (next_addr (kure w)) (rel r) (rel ot)
          # calls (kure (snd (new w (r_context r) (PyInt (rows r)) (PyInt (cols r)) PyNone))) \<and>
      calls (kure (snd (new w (r_context r) (PyInt (rows r)) (PyInt (cols r)) PyNone)))
        = [K_rel_get_cols_si (next_addr (kure w)), K_rel_get_rows_si (next_addr (kure w)),
           K_rel_new_with_size_si (c_context (contexts w (r_context r)))
             (c_int (rows r)) (c_int (cols r))] @ calls (kure w))"
proof (intro conjI impI)
  assume a: "(rows r = 0 \<and> cols r = 0) \<or> (0 < rows r \<and> 0 < cols r)"
  note v = new_valid [OF a]
  show "calls (kure (snd (meet w r (PyRelation ot))))
        = K_and (next_addr (kure w)) (rel r) (rel ot)
          # calls (kure (snd (new w (r_context r) (PyInt (rows r)) (PyInt (cols r)) PyNone)))"
    by (simp add: meet_def v result_or_error_kure kure_and_calls)
  show "calls (kure (snd (join w r (PyRelation ot))))
        = K_or (next_addr (kure w)) (rel r) (rel ot)
          # calls (kure (snd (new w (r_context r) (PyInt (rows r)) (PyInt (cols r)) PyNone)))"
    by (simp add: join_def v result_or_error_kure kure_or_calls)
  show "calls (kure (snd (composition w r (PyRelation ot))))
        = K_mult (next_addr (kure w)) (rel r) (rel ot)
          # calls (kure (snd (new w (r_context r) (PyInt (rows r)) (PyInt (cols r)) PyNone)))"
    by (simp add: composition_def v result_or_error_kure kure_mult_calls)
  show "calls (kure (snd (new w (r_context r) (PyInt (rows r)) (PyInt (cols r)) PyNone)))
        = [K_rel_get_cols_si (next_addr (kure w)), K_rel_get_rows_si (next_addr (kure w)),
           K_rel_new_with_size_si (c_context (contexts w (r_context r)))
             (c_int (rows r)) (c_int (cols r))] @ calls (kure w)"
    by (rule new_None_calls [OF a])
qed (simp_all add: meet_def join_def composition_def equals_def isSubset_def isSuperset_def
      answer_or_error_kure kure_equals_calls kure_includes_calls)

theorem C3_no_context_check_witness:
  "meet two_contexts rel_a (PyInt 3) = (Inl TypeMismatch, two_contexts) \<and>
   equals two_contexts rel_a (PyInt 3) = (Inl TypeMismatch, two_contexts) \<and>
   r_context rel_b \<noteq> r_context rel_a \<and>
   calls (kure (snd (equals two_contexts rel_a (PyRelation rel_b))))
     = K_equals 3 4 # calls (kure two_contexts) \<and>
   calls (kure (snd (meet two_contexts rel_a (PyRelation rel_b))))
     = [K_and 5 3 4, K_rel_get_cols_si 5, K_rel_get_rows_si 5, K_rel_new_with_size_si 1 2 2]
       @ calls (kure two_contexts)"
proof -
  have a: "is_relation (PyInt 3) = Inl TypeMismatch" by simp
  have b: "(rows rel_a = 0 \<and> cols rel_a = 0) \<or> (0 < rows rel_a \<and> 0 < cols rel_a)"
    by (simp add: rel_a_def)
  have c: "next_addr (kure two_contexts) = 5" by code_simp
  have d: "c_context (contexts two_contexts (r_context rel_a)) = 1" by code_simp
  have e: "rel rel_a = 3" "rel rel_b = 4" "rows rel_a = 2" "cols rel_a = 2"
    "r_context rel_b \<noteq> r_context rel_a" "c_int 2 = 2"
    by (simp_all add: rel_a_def rel_b_def c_int_def)
  show ?thesis
    using a b C3_no_context_check [of "PyInt 3" two_contexts rel_a rel_b]
    using C3_no_context_check [of "PyRelation rel_b" two_contexts rel_a rel_b]
    by (simp add: c d e)
qed

text \<open>
  The claim as stated fails for two relations of two contexts: \<open>meet\<close> makes four engine
  calls, the last of them \<open>kure_and\<close> on the handles of both relations.
\<close>

theorem C3_counterexample:
  "r_context rel_b \<noteq> r_context rel_a \<and>
   calls (kure (snd (meet two_contexts rel_a (PyRelation rel_b))))
     = [K_and 5 3 4, K_rel_get_cols_si 5, K_rel_get_rows_si 5, K_rel_new_with_size_si 1 2 2]
       @ calls (kure two_contexts)"
  by code_simp

section \<open>Setting a sequence of bits\<close>













section \<open>Dimensions of transpose and composition\<close>

text \<open>
  C1, on the code. \<open>transpose()\<close> of the relation with 3 rows and 5 columns returns a
  Relation whose attributes are \<open>rows = 3\<close> and \<open>cols = 5\<close>, those of the operand: the result
  is minted by \<open>new(self.rows, self.cols)\<close> and its attributes are read then. The engine
  relation behind it has 5 rows and 3 columns after the call, with the bit (4,0) for the
  operand's (0,4). The row count of the result is therefore not the column count of the
  operand.
\<close>

theorem C1_transpose_dimensions:
  "fst (new demo_world demo_ctx (PyInt 3) (PyInt 5) (PyList [PyTuple [PyInt 0, PyInt 4]]))
     = Inr rel_3x5 \<and>
   fst (transpose_rel world_3x5 rel_3x5)
     = Inr \<lparr>r_context = 0, r_ref = 2, rel = 3, rows = 3, cols = 5\<rparr> \<and>
   heap (kure (snd (transpose_rel world_3x5 rel_3x5))) 3
     = Some \<lparr>kr_context = 1, kr_rows = 5, kr_cols = 3, kr_bits = {(4, 0)}\<rparr>"
  by code_simp

text \<open>
  C2, on the code. \<open>composition\<close> of a 2\<times>3 relation with a 3\<times>4 relation returns a
  Relation whose attributes are \<open>rows = 2\<close> and \<open>cols = 3\<close>, those of the receiver, for the
  same reason. The engine relation behind it has 2 rows and 4 columns and the bit (0,3),
  the composition of (0,1) and (1,3). The column count of the result is therefore not the
  column count of the second operand.
\<close>

theorem C2_composition_dimensions:
  "fst (new (snd (new demo_world demo_ctx (PyInt 2) (PyInt 3) (PyList [PyTuple [PyInt 0, PyInt 1]])))
            demo_ctx (PyInt 3) (PyInt 4) (PyList [PyTuple [PyInt 1, PyInt 3]])) = Inr rel_3x4 \<and>
   fst (composition world_2x3_3x4 rel_2x3 (PyRelation rel_3x4))
     = Inr \<lparr>r_context = 0, r_ref = 3, rel = 4, rows = 2, cols = 3\<rparr> \<and>
   heap (kure (snd (composition world_2x3_3x4 rel_2x3 (PyRelation rel_3x4)))) 4
     = Some \<lparr>kr_context = 1, kr_rows = 2, kr_cols = 4, kr_bits = {(0, 3)}\<rparr>"
  by code_simp

section \<open>Double complement\<close>

lemma complement_live:
  assumes live: "heap (kure w) (rel r) = Some kr"
    and valid: "(rows r = 0 \<and> cols r = 0) \<or> (0 < rows r \<and> 0 < cols r)"
    and fresh: "rel r < next_addr (kure w)"
  shows "\<exists>w1. complement w r =
           (Inr \<lparr>r_context = r_context r, r_ref = ref (contexts w (r_context r)) + 1,
                 rel = next_addr (kure w), rows = c_int (rows r), cols = c_int (cols r)\<rparr>, w1) \<and>
         heap (kure w1) = (heap (kure w))(next_addr (kure w) \<mapsto>
            \<lparr>kr_context = c_context (contexts w (r_context r)), kr_rows = kr_rows kr,
              kr_cols = kr_cols kr,
              kr_bits = universe (kr_rows kr) (kr_cols kr) - kr_bits kr\<rparr>) \<and>
         next_addr (kure w1) = Suc (next_addr (kure w))"
proof -
  have ne: "rel r \<noteq> next_addr (kure w)" using fresh by simp
  show ?thesis
    using live ne
    by (simp add: complement_def new_valid [OF valid] result_or_error_def Let_def
        kure_complement_def kure_write_def kure_rel_new_with_size_si_def logged_def)
qed

text \<open>
  C8, amended. Let \<open>r\<close> be a Relation whose handle is live, allocated by the engine (below
  the next free address), with all its bits inside its dimension, and whose attributes
  \<open>rows\<close> and \<open>cols\<close> are a valid dimension (both zero or both positive) within the range
  of a C \<open>int\<close>. Then \<open>r.complement()\<close> returns a relation, its \<open>complement()\<close> returns
  a relation again, and both \<open>equals\<close> and \<open>==\<close> of that relation with \<open>r\<close> return
  \<open>True\<close>.
\<close>

theorem C8_double_complement:
  assumes "heap (kure w) (rel r) = Some kr"
    and "kr_bits kr \<subseteq> universe (kr_rows kr) (kr_cols kr)"
    and "rel r < next_addr (kure w)"
    and "(rows r = 0 \<and> cols r = 0) \<or> (0 < rows r \<and> 0 < cols r)"
    and "rows r \<le> 2147483647" and "cols r \<le> 2147483647"
  shows "\<exists>r1 w1 r2 w2 w3.
           complement w r = (Inr r1, w1) \<and> complement w1 r1 = (Inr r2, w2) \<and>
           equals w2 r2 (PyRelation r) = (Inr True, w3) \<and>
           eq w2 r2 (PyRelation r) = (Inr True, w3)"
proof -
  let ?h = "next_addr (kure w)"
  let ?m = "c_context (contexts w (r_context r))"
  let ?r1 = "\<lparr>r_context = r_context r, r_ref = ref (contexts w (r_context r)) + 1,
                 rel = ?h, rows = c_int (rows r), cols = c_int (cols r)\<rparr>"
  let ?k1 = "\<lparr>kr_context = ?m, kr_rows = kr_rows kr, kr_cols = kr_cols kr,
              kr_bits = universe (kr_rows kr) (kr_cols kr) - kr_bits kr\<rparr>"
  from complement_live [OF assms(1,4,3)] obtain w1 where
    c1: "complement w r = (Inr ?r1, w1)"
    and h1: "heap (kure w1) = (heap (kure w))(?h \<mapsto> ?k1)"
    and n1: "next_addr (kure w1) = Suc ?h" by blast
  have ci: "c_int (rows r) = rows r" "c_int (cols r) = cols r"
    using assms(4,5,6) by (auto intro!: c_int_id)
  have live1: "heap (kure w1) (rel ?r1) = Some ?k1" using h1 by simp
  have valid1: "(rows ?r1 = 0 \<and> cols ?r1 = 0) \<or> (0 < rows ?r1 \<and> 0 < cols ?r1)"
    using assms(4) ci by simp
  have fresh1: "rel ?r1 < next_addr (kure w1)" using n1 by simp
  let ?r2 = "\<lparr>r_context = r_context ?r1, r_ref = ref (contexts w1 (r_context ?r1)) + 1,
                 rel = next_addr (kure w1), rows = c_int (rows ?r1), cols = c_int (cols ?r1)\<rparr>"
  let ?k2 = "\<lparr>kr_context = c_context (contexts w1 (r_context ?r1)), kr_rows = kr_rows ?k1,
              kr_cols = kr_cols ?k1,
              kr_bits = universe (kr_rows ?k1) (kr_cols ?k1) - kr_bits ?k1\<rparr>"
  from complement_live [OF live1 valid1 fresh1] obtain w2 where
    c2: "complement w1 ?r1 = (Inr ?r2, w2)"
    and h2: "heap (kure w2) = (heap (kure w1))(next_addr (kure w1) \<mapsto> ?k2)" by blast
  have a: "heap (kure w2) (rel ?r2) = Some ?k2" using h2 by simp
  have b: "heap (kure w2) (rel r) = Some kr" using h2 h1 n1 assms(1,3) by simp
  have bits: "kr_bits ?k2 = kr_bits kr" using assms(2) by auto
  have "equals w2 ?r2 (PyRelation r) = (Inr True, w2\<lparr>kure := logged (K_equals (rel ?r2) (rel r)) (kure w2)\<rparr>)"
    using a b bits by (simp add: equals_def answer_or_error_def kure_equals_def Let_def)
  then show ?thesis using c1 c2 by (simp add: eq_def)
qed

theorem C8_double_complement_witness:
  "\<exists>r1 w1 r2 w2 w3.
     complement demo_world1 demo_rel = (Inr r1, w1) \<and> complement w1 r1 = (Inr r2, w2) \<and>
     equals w2 r2 (PyRelation demo_rel) = (Inr True, w3) \<and>
     eq w2 r2 (PyRelation demo_rel) = (Inr True, w3)"
proof -
  have b: "kr_bits \<lparr>kr_context = 1, kr_rows = 2, kr_cols = 2, kr_bits = {(0, 0)}\<rparr>
      \<subseteq> universe (kr_rows \<lparr>kr_context = 1, kr_rows = 2, kr_cols = 2, kr_bits = {(0, 0)}\<rparr>)
          (kr_cols \<lparr>kr_context = 1, kr_rows = 2, kr_cols = 2, kr_bits = {(0, 0)}\<rparr>)"
    by (simp add: universe_def)
  have f: "rel demo_rel < next_addr (kure demo_world1)" by code_simp
  have v: "(rows demo_rel = 0 \<and> cols demo_rel = 0) \<or> (0 < rows demo_rel \<and> 0 < cols demo_rel)"
    "rows demo_rel \<le> 2147483647" "cols demo_rel \<le> 2147483647"
    by (simp_all add: demo_rel_def)
  show ?thesis by (rule C8_double_complement [OF demo_rel_live b f v])
qed

text \<open>
  The claim as stated, for every relation, fails for a relation whose attributes are not
  a valid dimension, and \<open>new\<close> returns such relations: \<open>new(2^31, 2^31)\<close> passes the check
  of the dimension, \<open>c_int\<close> turns \<open>2^31\<close> into \<open>-2^31\<close>, and the relation returned has the
  attributes \<open>rows = cols = -2147483648\<close>. Its \<open>complement()\<close> mints the result with these
  attributes and raises "Invalid dimension.".
\<close>

theorem C8_counterexample:
  "fst (new demo_world demo_ctx (PyInt 2147483648) (PyInt 2147483648) PyNone)
     = Inr \<lparr>r_context = 0, r_ref = 1, rel = 2, rows = - 2147483648, cols = - 2147483648\<rparr> \<and>
   fst (complement (snd (new demo_world demo_ctx (PyInt 2147483648) (PyInt 2147483648) PyNone))
          \<lparr>r_context = 0, r_ref = 1, rel = 2, rows = - 2147483648, cols = - 2147483648\<rparr>)
     = Inl InvalidDimension"
  by code_simp

end
